theory Spec2Isabelle
  imports Complex_Main "HOL-Library.Sublist" "HOL-Library.AList"
begin

section \<open>JavaScript numbers\<close>

text \<open>
  A JavaScript number is modelled as an exact rational or one of the three special
  values. Arithmetic on finite values is exact: the rounding of IEEE doubles (and the
  negative zero) is not part of the model. Division by zero, the sums and products of
  infinities and the comparisons with \<open>NaN\<close> are those of JavaScript.
\<close>

datatype jsnum = Fin rat | PosInf | NegInf | NaN

fun js_add :: "jsnum \<Rightarrow> jsnum \<Rightarrow> jsnum" where
  "js_add (Fin a) (Fin b) = Fin (a + b)"
| "js_add NaN _ = NaN"
| "js_add _ NaN = NaN"
| "js_add PosInf NegInf = NaN"
| "js_add NegInf PosInf = NaN"
| "js_add PosInf _ = PosInf"
| "js_add _ PosInf = PosInf"
| "js_add NegInf _ = NegInf"
| "js_add _ NegInf = NegInf"

fun js_neg :: "jsnum \<Rightarrow> jsnum" where
  "js_neg (Fin a) = Fin (- a)"
| "js_neg PosInf = NegInf"
| "js_neg NegInf = PosInf"
| "js_neg NaN = NaN"

text \<open>The sign of a number that is not \<open>NaN\<close>: -1, 0 or 1.\<close>

fun js_sign :: "jsnum \<Rightarrow> int" where
  "js_sign (Fin a) = (if a < 0 then - 1 else if a = 0 then 0 else 1)"
| "js_sign PosInf = 1"
| "js_sign NegInf = - 1"
| "js_sign NaN = 0"

fun js_mul :: "jsnum \<Rightarrow> jsnum \<Rightarrow> jsnum" where
  "js_mul (Fin a) (Fin b) = Fin (a * b)"
| "js_mul NaN _ = NaN"
| "js_mul _ NaN = NaN"
| "js_mul a b =
     (if js_sign a * js_sign b = 0 then NaN
      else if js_sign a * js_sign b > 0 then PosInf else NegInf)"

fun js_div :: "jsnum \<Rightarrow> jsnum \<Rightarrow> jsnum" where
  "js_div (Fin a) (Fin b) =
     (if b \<noteq> 0 then Fin (a / b)
      else if a = 0 then NaN else if a > 0 then PosInf else NegInf)"
| "js_div NaN _ = NaN"
| "js_div _ NaN = NaN"
| "js_div (Fin a) _ = Fin 0"
| "js_div a (Fin b) = (if (js_sign a > 0) = (b \<ge> 0) then PosInf else NegInf)"
| "js_div _ _ = NaN"

text \<open>\<open>a <= b\<close>: false whenever an operand is \<open>NaN\<close>.\<close>

fun js_le :: "jsnum \<Rightarrow> jsnum \<Rightarrow> bool" where
  "js_le NaN _ = False"
| "js_le _ NaN = False"
| "js_le (Fin a) (Fin b) = (a \<le> b)"
| "js_le NegInf _ = True"
| "js_le _ PosInf = True"
| "js_le _ _ = False"

text \<open>The JavaScript values a caller can pass where the source tests \<open>typeof\<close> or
  truthiness. \<open>VObj\<close> stands for an object that is not an array.\<close>

datatype jsval = VUndefined | VNull | VBool bool | VNum jsnum | VStr string | VObj

fun truthy :: "jsval \<Rightarrow> bool" where
  "truthy VUndefined = False"
| "truthy VNull = False"
| "truthy (VBool b) = b"
| "truthy (VNum n) = (n \<noteq> NaN \<and> n \<noteq> Fin 0)"
| "truthy (VStr s) = (s \<noteq> [])"
| "truthy VObj = True"

section \<open>JavaScript strings and characters\<close>

text \<open>
  Strings are lists of 8-bit characters, read as ISO-8859-1 code units (the first 256
  code units of a JavaScript string). The character classes below are the ones the
  regular expressions of the source use, given by code unit: \<open>\d\<close> is 0-9, \<open>\s\<close> is
  tab, line feed, vertical tab, form feed, carriage return, space and the no-break space,
  and \<open>\w\<close> is 0-9, A-Z, the underscore and a-z.
\<close>

definition isDigit :: "char \<Rightarrow> bool" where
  "isDigit c \<longleftrightarrow> 48 \<le> (of_char c :: nat) \<and> (of_char c :: nat) \<le> 57"

definition isSpace :: "char \<Rightarrow> bool" where
  "isSpace c \<longleftrightarrow> (of_char c :: nat) \<in> {9, 10, 11, 12, 13, 32, 160}"

definition isWord :: "char \<Rightarrow> bool" where
  "isWord c \<longleftrightarrow>
     (let n = (of_char c :: nat)
      in (48 \<le> n \<and> n \<le> 57) \<or> (65 \<le> n \<and> n \<le> 90) \<or> n = 95 \<or> (97 \<le> n \<and> n \<le> 122))"

text \<open>\<open>String.prototype.toLowerCase\<close>: A-Z and the capitals U+00C0..U+00DE (without the
  multiplication sign U+00D7) move up by 32; every other code unit below 256 is kept.\<close>

definition lowerChar :: "char \<Rightarrow> char" where
  "lowerChar c =
     (let n = (of_char c :: nat)
      in if (65 \<le> n \<and> n \<le> 90) \<or> (192 \<le> n \<and> n \<le> 222 \<and> n \<noteq> 215)
         then char_of (n + 32) else c)"

definition toLowerCase :: "string \<Rightarrow> string" where
  "toLowerCase s = map lowerChar s"

text \<open>\<open>String.prototype.trim\<close> removes white space at both ends.\<close>

definition trim :: "string \<Rightarrow> string" where
  "trim s = rev (dropWhile isSpace (rev (dropWhile isSpace s)))"

section \<open>Reading numbers from text\<close>

text \<open>\<open>parseInt\<close> on a run of decimal digits (the only arguments the source gives it
  are groups matched by \<open>\d+\<close>).\<close>

definition digitVal :: "char \<Rightarrow> nat" where
  "digitVal c = of_char c - 48"

definition digitsVal :: "string \<Rightarrow> nat" where
  "digitsVal ds = foldl (\<lambda>n c. 10 * n + digitVal c) 0 ds"

definition parseInt :: "string \<Rightarrow> jsnum" where
  "parseInt ds = Fin (of_nat (digitsVal ds))"

text \<open>
  \<open>parseFloat\<close>: skip leading white space, then read the longest prefix that is a decimal
  literal: an optional sign, then \<open>Infinity\<close> or digits with an optional fraction part and
  an optional exponent. At least one digit is needed before or after the point; an
  exponent counts only when it has a digit. No such prefix gives \<open>NaN\<close>.
\<close>

definition readExponent :: "string \<Rightarrow> int" where
  "readExponent r =
     (case r of
        [] \<Rightarrow> 0
      | e # r1 \<Rightarrow>
          if e = CHR ''e'' \<or> e = CHR ''E'' then
            (case r1 of
               [] \<Rightarrow> 0
             | sg # r2 \<Rightarrow>
                 if sg = CHR ''-'' then
                   (if takeWhile isDigit r2 = [] then 0
                    else - int (digitsVal (takeWhile isDigit r2)))
                 else if sg = CHR ''+'' then int (digitsVal (takeWhile isDigit r2))
                 else int (digitsVal (takeWhile isDigit r1)))
          else 0)"

definition scale10 :: "rat \<Rightarrow> int \<Rightarrow> rat" where
  "scale10 x e = (if e \<ge> 0 then x * 10 ^ nat e else x / 10 ^ nat (- e))"

definition readUnsigned :: "string \<Rightarrow> jsnum" where
  "readUnsigned u =
     (if prefix ''Infinity'' u then PosInf
      else
        let ip = takeWhile isDigit u;
            r1 = dropWhile isDigit u;
            fp = (case r1 of [] \<Rightarrow> [] | c # r \<Rightarrow> if c = CHR ''.'' then takeWhile isDigit r else []);
            r2 = (case r1 of [] \<Rightarrow> [] | c # r \<Rightarrow> if c = CHR ''.'' then dropWhile isDigit r else r1)
        in if ip = [] \<and> fp = [] then NaN
           else Fin (scale10 (of_nat (digitsVal ip) + of_nat (digitsVal fp) / 10 ^ length fp)
                             (readExponent r2)))"

definition parseFloat :: "string \<Rightarrow> jsnum" where
  "parseFloat s =
     (case dropWhile isSpace s of
        [] \<Rightarrow> NaN
      | c # r \<Rightarrow>
          if c = CHR ''-'' then js_neg (readUnsigned r)
          else if c = CHR ''+'' then readUnsigned r
          else readUnsigned (c # r))"

section \<open>IngredientProcessor: parseFraction\<close>

text \<open>The pattern \<open>/^(\d+)\s+(\d+)\/(\d+)$/\<close>: the three groups, when the whole string has
  that shape. Every quantifier is greedy and the classes that follow one another are
  disjoint, so the greedy split is the only one.\<close>

definition mixedMatch :: "string \<Rightarrow> (string \<times> string \<times> string) option" where
  "mixedMatch str =
     (let whole = takeWhile isDigit str;
          r1 = dropWhile isDigit str;
          r2 = dropWhile isSpace r1;
          numerator = takeWhile isDigit r2;
          r3 = dropWhile isDigit r2
      in if whole \<noteq> [] \<and> takeWhile isSpace r1 \<noteq> [] \<and> numerator \<noteq> [] then
           (case r3 of
              [] \<Rightarrow> None
            | c # denominator \<Rightarrow>
                if c = CHR ''/'' \<and> denominator \<noteq> [] \<and> list_all isDigit denominator
                then Some (whole, numerator, denominator) else None)
         else None)"

text \<open>The pattern \<open>/^(\d+)\/(\d+)$/\<close>.\<close>

definition fractionMatch :: "string \<Rightarrow> (string \<times> string) option" where
  "fractionMatch str =
     (let numerator = takeWhile isDigit str
      in if numerator \<noteq> [] then
           (case dropWhile isDigit str of
              [] \<Rightarrow> None
            | c # denominator \<Rightarrow>
                if c = CHR ''/'' \<and> denominator \<noteq> [] \<and> list_all isDigit denominator
                then Some (numerator, denominator) else None)
         else None)"

text \<open>\<open>parseFraction\<close>; \<open>None\<close> is the source's \<open>null\<close>.\<close>

definition parseFraction :: "string \<Rightarrow> jsnum option" where
  "parseFraction fractionStr =
     (if fractionStr = [] then None
      else
        let str = trim fractionStr
        in case mixedMatch str of
             Some (whole, numerator, denominator) \<Rightarrow>
               Some (js_add (parseInt whole) (js_div (parseInt numerator) (parseInt denominator)))
           | None \<Rightarrow>
               (case fractionMatch str of
                  Some (numerator, denominator) \<Rightarrow>
                    Some (js_div (parseInt numerator) (parseInt denominator))
                | None \<Rightarrow>
                    (let number = parseFloat str
                     in if number = NaN then None else Some number)))"

section \<open>IngredientProcessor: the category table and the categorizer\<close>

text \<open>\<open>this.categoryMap\<close>, in the insertion order that \<open>Object.entries\<close> follows.\<close>

definition categoryMap :: "(string \<times> string list) list" where
  "categoryMap =
    [(''meat'', [''beef'', ''pork'', ''chicken'', ''turkey'', ''lamb'', ''fish'', ''salmon'',
                ''tuna'', ''shrimp'', ''brisket'', ''ribs'', ''steak'', ''ground beef'',
                ''ground pork'', ''bacon'', ''sausage'']),
     (''vegetables'', [''onion'', ''onions'', ''carrot'', ''carrots'', ''celery'',
                ''bell pepper'', ''peppers'', ''mushroom'', ''mushrooms'', ''tomato'',
                ''tomatoes'', ''potato'', ''potatoes'', ''ginger'',
                ''jalape'' @ [CHR 0xF1] @ ''o'', ''jalape'' @ [CHR 0xF1] @ ''os'']),
     (''spices'', [''salt'', ''pepper'', ''paprika'', ''cumin'', ''chili powder'',
                ''garlic powder'', ''onion powder'', ''oregano'', ''thyme'', ''rosemary'',
                ''bay leaves'', ''cayenne'', ''black pepper'', ''white pepper'',
                ''red pepper flakes'', ''vanilla'']),
     (''dairy'', [''milk'', ''butter'', ''cheese'', ''cream'', ''yogurt'', ''sour cream'',
                ''cream cheese'']),
     (''pantry'', [''flour'', ''sugar'', ''brown sugar'', ''honey'', ''oil'', ''olive oil'',
                ''vinegar'', ''soy sauce'', ''worcestershire'', ''ketchup'', ''mustard'',
                ''bbq sauce'', ''sauce''])]"

text \<open>\<open>s.includes(k)\<close> is \<^term>\<open>sublist k s\<close>: \<open>k\<close> occurs in \<open>s\<close> as a contiguous run.
  The inner loop of \<open>categorizeIngredient\<close> returns at the first keyword that occurs,
  the outer loop at the first category that has one.\<close>

fun matchesAny :: "string \<Rightarrow> string list \<Rightarrow> bool" where
  "matchesAny lowerItem [] = False"
| "matchesAny lowerItem (categoryItem # items) =
     (if sublist categoryItem lowerItem then True else matchesAny lowerItem items)"

fun scanCategories :: "string \<Rightarrow> (string \<times> string list) list \<Rightarrow> string option" where
  "scanCategories lowerItem [] = None"
| "scanCategories lowerItem ((category, items) # entries) =
     (if matchesAny lowerItem items then Some category
      else scanCategories lowerItem entries)"

definition categorizeIngredient :: "string \<Rightarrow> string" where
  "categorizeIngredient item =
     (if item = [] then ''pantry''
      else case scanCategories (toLowerCase item) categoryMap of
             Some category \<Rightarrow> category
           | None \<Rightarrow> ''pantry'')"

section \<open>IngredientProcessor: units and ingredient lines\<close>

text \<open>\<open>this.unitMap\<close>: the own properties of the table.\<close>

definition unitMap :: "string \<rightharpoonup> string" where
  "unitMap = map_of
    [(''tbsp'', ''tablespoon''), (''tablespoons'', ''tablespoon''),
     (''tsp'', ''teaspoon''), (''teaspoons'', ''teaspoon''),
     (''cup'', ''cup''), (''cups'', ''cup''),
     (''pt'', ''pint''), (''pint'', ''pint''), (''pints'', ''pint''),
     (''qt'', ''quart''), (''quart'', ''quart''), (''quarts'', ''quart''),
     (''gal'', ''gallon''), (''gallon'', ''gallon''), (''gallons'', ''gallon''),
     (''oz'', ''ounce''), (''ounce'', ''ounce''), (''ounces'', ''ounce''),
     (''lb'', ''pound''), (''lbs'', ''pound''), (''pound'', ''pound''), (''pounds'', ''pound''),
     (''in'', ''inch''), (''inch'', ''inch''), (''inches'', ''inch'')]"

text \<open>
  The table is a plain object, and \<open>this.unitMap[key]\<close> also finds what a plain object
  inherits from \<open>Object.prototype\<close>. These are the inherited names; under each of them
  lies a function, and under \<open>__proto__\<close> the prototype object: values that are truthy
  and are not strings. \<open>inheritedText\<close> is the text such a value gives in a template
  literal (as Node prints it).
\<close>

definition objectPrototypeNames :: "string list" where
  "objectPrototypeNames =
     [''constructor'', ''__proto__'', ''__defineGetter__'', ''__defineSetter__'',
      ''__lookupGetter__'', ''__lookupSetter__'', ''hasOwnProperty'', ''isPrototypeOf'',
      ''propertyIsEnumerable'', ''toLocaleString'', ''toString'', ''valueOf'']"

definition inheritedText :: "string \<Rightarrow> string option" where
  "inheritedText k =
     (if k = ''__proto__'' then Some ''[object Object]''
      else if k = ''constructor'' then Some ''function Object() { [native code] }''
      else if k \<in> set objectPrototypeNames
           then Some (''function '' @ k @ ''() { [native code] }'')
      else None)"

text \<open>\<open>this.unitMap[key]\<close>: an own property first, an inherited one otherwise. The
  result stands for the value found; \<open>None\<close> is \<open>undefined\<close>.\<close>

definition unitLookup :: "string \<Rightarrow> string option" where
  "unitLookup k = (case unitMap k of Some v \<Rightarrow> Some v | None \<Rightarrow> inheritedText k)"

text \<open>\<open>normalizeUnit\<close>: every value the lookup finds is truthy.\<close>

definition normalizeUnit :: "string \<Rightarrow> string option" where
  "normalizeUnit unit =
     (if unit = [] then None
      else case unitLookup (toLowerCase unit) of
             Some normalized \<Rightarrow> Some normalized
           | None \<Rightarrow> Some unit)"

text \<open>
  An ingredient line as the objects of the source carry it. A \<open>quantity\<close> of \<open>None\<close> is
  \<open>null\<close>; for the other properties \<open>None\<close> is \<open>null\<close> or an absent property. The
  flags \<open>consolidated\<close> and \<open>scaled\<close> are \<open>False\<close> while the object does not have them.
  The \<open>unit\<close> is held as text. The functions below use a unit in two ways only, a
  truthiness test and a template literal, so the two values that \<open>parseIngredient\<close> can
  store there and that are not strings (the inherited \<open>constructor\<close> and \<open>__proto__\<close>)
  are held as the text they give in a template literal.
\<close>

record ingredient =
  quantity :: "jsnum option"
  unit :: "string option"
  item :: "string option"
  originalText :: "string option"
  category :: "string option"
  consolidated :: bool
  scaled :: bool
  originalQuantity :: "jsnum option"

text \<open>
  The pattern \<open>/^(\d+(?:\s+\d+\/\d+|\.\d+|\/\d+)?)/\<close> at the start of the working copy:
  the matched text and what follows it. The leading digits are taken greedily; the
  optional group is tried on what follows them and left out when none of its three
  alternatives fits. The alternatives start with white space, a point and a slash, so at
  most one can fit.
\<close>

definition quantityTail :: "string \<Rightarrow> (string \<times> string) option" where
  "quantityTail r =
     (case r of
        [] \<Rightarrow> None
      | c # r1 \<Rightarrow>
          if isSpace c then
            (let sp = takeWhile isSpace r;
                 r2 = dropWhile isSpace r;
                 n = takeWhile isDigit r2
             in case dropWhile isDigit r2 of
                  [] \<Rightarrow> None
                | sl # r3 \<Rightarrow>
                    if n \<noteq> [] \<and> sl = CHR ''/'' \<and> takeWhile isDigit r3 \<noteq> []
                    then Some (sp @ n @ sl # takeWhile isDigit r3, dropWhile isDigit r3)
                    else None)
          else if (c = CHR ''.'' \<or> c = CHR ''/'') \<and> takeWhile isDigit r1 \<noteq> []
          then Some (c # takeWhile isDigit r1, dropWhile isDigit r1)
          else None)"

definition quantityMatch :: "string \<Rightarrow> (string \<times> string) option" where
  "quantityMatch remaining =
     (let whole = takeWhile isDigit remaining;
          r = dropWhile isDigit remaining
      in if whole = [] then None
         else case quantityTail r of
                Some (m, rest) \<Rightarrow> Some (whole @ m, rest)
              | None \<Rightarrow> Some (whole, r))"

text \<open>The quantity step of \<open>parseIngredient\<close>: the quantity and the working copy after
  it. A match is cut off the working copy, which is trimmed again.\<close>

definition quantityStep :: "string \<Rightarrow> jsnum option \<times> string" where
  "quantityStep remaining =
     (case quantityMatch remaining of
        Some (m, rest) \<Rightarrow> (parseFraction m, trim rest)
      | None \<Rightarrow> (None, remaining))"

text \<open>The unit step: the pattern \<open>/^(\w+)/\<close> matches the longest run of word characters
  at the start, when there is one; the run is a unit only when there is a quantity and
  the lookup of the run in the unit table finds a value.\<close>

definition unitStep :: "jsnum option \<Rightarrow> string \<Rightarrow> string option \<times> string" where
  "unitStep q remaining =
     (let potentialUnit = takeWhile isWord remaining
      in if potentialUnit \<noteq> [] \<and> q \<noteq> None \<and> unitLookup (toLowerCase potentialUnit) \<noteq> None
         then (normalizeUnit potentialUnit, trim (drop (length potentialUnit) remaining))
         else (None, remaining))"

text \<open>\<open>parseIngredient\<close> on a non-empty string.\<close>

definition parseLine :: "string \<Rightarrow> ingredient" where
  "parseLine ingredientText =
     (let original = trim ingredientText;
          (q, remaining1) = quantityStep (toLowerCase original);
          (u, remaining2) = unitStep q remaining1;
          it = (if remaining2 \<noteq> [] then remaining2 else original)
      in \<lparr> quantity = q, unit = u, item = Some it,
           originalText = Some original, category = Some (categorizeIngredient it),
           consolidated = False, scaled = False, originalQuantity = None \<rparr>)"

text \<open>\<open>parseIngredient\<close>: \<open>null\<close> for a falsy argument and for one that is not a string.\<close>

definition parseIngredient :: "jsval \<Rightarrow> ingredient option" where
  "parseIngredient ingredientText =
     (if \<not> truthy ingredientText then None
      else case ingredientText of
             VStr text \<Rightarrow> Some (parseLine text)
           | _ \<Rightarrow> None)"

section \<open>IngredientProcessor: consolidateIngredients\<close>

text \<open>An argument that the source tests with \<open>Array.isArray\<close>.\<close>

datatype 'a jsarg = NotArray | IsArray "'a list"

text \<open>The key \<open>`${ingredient.item}-${ingredient.unit || 'no-unit'}`\<close>.\<close>

definition unitKey :: "string option \<Rightarrow> string" where
  "unitKey u = (case u of None \<Rightarrow> ''no-unit'' | Some s \<Rightarrow> if s = [] then ''no-unit'' else s)"

definition groupKey :: "string \<Rightarrow> string option \<Rightarrow> string" where
  "groupKey it u = it @ ''-'' @ unitKey u"

text \<open>
  One round of the \<open>forEach\<close>. The \<open>Map\<close> is a list of entries in insertion order:
  \<open>set\<close> of a new key appends an entry, and the update of \<open>existing\<close> changes the stored
  copy where it stands. An element of the array is \<open>None\<close> when it is \<open>null\<close> or
  \<open>undefined\<close>.
\<close>

definition consolidateStep ::
  "(string \<times> ingredient) list \<Rightarrow> ingredient option \<Rightarrow> (string \<times> ingredient) list" where
  "consolidateStep entries ingredient =
     (case ingredient of
        None \<Rightarrow> entries
      | Some ing \<Rightarrow>
          (case item ing of
             None \<Rightarrow> entries
           | Some it \<Rightarrow>
               if it = [] then entries
               else
                 let key = groupKey it (unit ing)
                 in case map_of entries key of
                      Some existing \<Rightarrow>
                        (case quantity existing of
                           None \<Rightarrow> entries
                         | Some q \<Rightarrow>
                             (case quantity ing of
                                None \<Rightarrow> entries
                              | Some q' \<Rightarrow>
                                  AList.update key
                                    (existing\<lparr>quantity := Some (js_add q q'),
                                               consolidated := True\<rparr>) entries))
                    | None \<Rightarrow> entries @ [(key, ing)]))"

definition consolidateIngredients :: "ingredient option jsarg \<Rightarrow> ingredient list" where
  "consolidateIngredients ingredients =
     (case ingredients of
        NotArray \<Rightarrow> []
      | IsArray xs \<Rightarrow> map snd (foldl consolidateStep [] xs))"

section \<open>ShoppingListGenerator\<close>

text \<open>The \<open>items\<close> property of a shopping list: an array of ingredient lines, or any
  other value (\<open>VUndefined\<close> when the property is absent).\<close>

datatype itemsField = ItemsVal jsval | ItemsArr "ingredient list"

fun itemsTruthy :: "itemsField \<Rightarrow> bool" where
  "itemsTruthy (ItemsVal v) = truthy v"
| "itemsTruthy (ItemsArr xs) = True"

text \<open>A shopping list. \<open>organized\<close> is \<open>None\<close> when the property is absent, and otherwise
  the categories in the order \<open>Object.keys\<close> lists them, each with its lines. The time stamps (\<open>createdAt\<close>,
  \<open>scaledAt\<close>) are left out: no other property depends on them.\<close>

record shoppingList =
  title :: jsval
  items :: itemsField
  organized :: "(string \<times> ingredient list) list option"
  recipes :: "string list"
  itemCount :: nat
  scaleMultiplier :: "jsnum option"

record recipe =
  recipe_id :: string
  recipe_title :: string
  ingredients :: "jsval list option"

text \<open>
  The own keys of a JavaScript object, in the order \<open>Object.keys\<close> lists them: the array
  indices (the decimal numerals up to 4294967294, written without a leading zero) in
  numeric order, then every other key in the order of creation. Two numerals without a
  leading zero compare by length and, at equal length, digit by digit. \<open>insertKey\<close>
  adds a new key to such a list.
\<close>

fun digitsLess :: "string \<Rightarrow> string \<Rightarrow> bool" where
  "digitsLess (c # cs) (d # ds) =
     ((of_char c :: nat) < of_char d \<or> (c = d \<and> digitsLess cs ds))"
| "digitsLess _ _ = False"

definition numeralLess :: "string \<Rightarrow> string \<Rightarrow> bool" where
  "numeralLess k k' \<longleftrightarrow>
     length k < length k' \<or> (length k = length k' \<and> digitsLess k k')"

definition isArrayIndex :: "string \<Rightarrow> bool" where
  "isArrayIndex k \<longleftrightarrow>
     k \<noteq> [] \<and> list_all isDigit k \<and> (k = ''0'' \<or> hd k \<noteq> CHR ''0'')
     \<and> numeralLess k ''4294967295''"

fun insertKey :: "string \<Rightarrow> 'v \<Rightarrow> (string \<times> 'v) list \<Rightarrow> (string \<times> 'v) list" where
  "insertKey k v [] = [(k, v)]"
| "insertKey k v ((k', v') # rest) =
     (if isArrayIndex k \<and> (\<not> isArrayIndex k' \<or> numeralLess k k')
      then (k, v) # (k', v') # rest
      else (k', v') # insertKey k v rest)"

text \<open>
  \<open>organizeByCategory\<close> on an array of lines. A line goes to the end of its category,
  which is created at its first line. Under a category that is an inherited name the
  object already has a truthy value, no array is created, and \<open>push\<close> is not a function
  of that value: the call throws a \<open>TypeError\<close>. \<open>None\<close> is that exception.
\<close>

definition organizeStep ::
  "(string \<times> ingredient list) list option \<Rightarrow> ingredient \<Rightarrow> (string \<times> ingredient list) list option" where
  "organizeStep org it =
     (case org of
        None \<Rightarrow> None
      | Some entries \<Rightarrow>
          let cat = (case category it of
                       None \<Rightarrow> ''pantry''
                     | Some c \<Rightarrow> if c = [] then ''pantry'' else c)
          in case map_of entries cat of
               Some lines \<Rightarrow> Some (AList.update cat (lines @ [it]) entries)
             | None \<Rightarrow>
                 if cat \<in> set objectPrototypeNames then None
                 else Some (insertKey cat [it] entries))"

definition organizeByCategory :: "ingredient list \<Rightarrow> (string \<times> ingredient list) list option" where
  "organizeByCategory xs = foldl organizeStep (Some []) xs"

text \<open>\<open>createShoppingListObject\<close>; \<open>None\<close> when \<open>organizeByCategory\<close> throws.\<close>

definition createShoppingListObject ::
  "ingredient list \<Rightarrow> string \<Rightarrow> string list \<Rightarrow> shoppingList option" where
  "createShoppingListObject xs t recipeIds =
     (case organizeByCategory xs of
        None \<Rightarrow> None
      | Some org \<Rightarrow>
          Some \<lparr> title = VStr t, items = ItemsArr xs, organized = Some org,
                 recipes = recipeIds, itemCount = length xs, scaleMultiplier = None \<rparr>)"

text \<open>The loop of \<open>generateFromMultipleRecipes\<close> over the recipes: the parsed lines and
  the identifiers collected so far. A recipe is \<open>None\<close> when the array holds \<open>null\<close>
  there; its \<open>ingredients\<close> are \<open>None\<close> when they are absent or not an array.\<close>

fun collectRecipes ::
  "recipe option list \<Rightarrow> ingredient list \<times> string list \<Rightarrow> ingredient list \<times> string list" where
  "collectRecipes [] acc = acc"
| "collectRecipes (None # rs) acc = collectRecipes rs acc"
| "collectRecipes (Some r # rs) (allIngredients, recipeIds) =
     (case ingredients r of
        None \<Rightarrow> collectRecipes rs (allIngredients, recipeIds)
      | Some lines \<Rightarrow>
          collectRecipes rs
            (allIngredients @ List.map_filter parseIngredient lines,
             recipeIds @ [recipe_id r]))"

text \<open>\<open>generateFromMultipleRecipes\<close>: \<open>Inl\<close> carries the error of a failure result,
  \<open>Inr\<close> the shopping list of a success. The last failure is the one of the \<open>catch\<close>,
  with the message of the \<open>TypeError\<close> as Node words it.\<close>

definition generateFromMultipleRecipes ::
  "recipe option jsarg \<Rightarrow> string option \<Rightarrow> string + shoppingList" where
  "generateFromMultipleRecipes recipeArray customTitle =
     (case recipeArray of
        NotArray \<Rightarrow> Inl ''Recipes must be an array''
      | IsArray rs \<Rightarrow>
          if rs = [] then Inl ''No recipes provided''
          else
            let (allIngredients, recipeIds) = collectRecipes rs ([], [])
            in if allIngredients = [] then Inl ''No valid ingredients found in recipes''
               else
                 let consolidatedIngredients =
                       consolidateIngredients (IsArray (map Some allIngredients));
                     t = (case customTitle of
                            None \<Rightarrow> ''Combined Recipes - Shopping List''
                          | Some c \<Rightarrow> if c = [] then ''Combined Recipes - Shopping List'' else c)
                 in case createShoppingListObject consolidatedIngredients t recipeIds of
                      Some sl \<Rightarrow> Inr sl
                    | None \<Rightarrow>
                        Inl (''Failed to generate shopping list: ''
                             @ ''organized[category].push is not a function''))"

section \<open>Numbers and values as text\<close>

text \<open>
  \<open>Number.prototype.toString\<close>. A whole number prints its decimal digits (the exponent
  form of very large doubles is not modelled). What JavaScript prints for a finite
  number that is not whole depends on the double nearest to it, so that text is a
  parameter \<open>numStr\<close> of every function that may print one.
\<close>

fun natStr :: "nat \<Rightarrow> string" where
  "natStr n = (if n < 10 then [char_of (48 + n)] else natStr (n div 10) @ [char_of (48 + n mod 10)])"

definition intStr :: "int \<Rightarrow> string" where
  "intStr i = (if i < 0 then CHR ''-'' # natStr (nat (- i)) else natStr (nat i))"

definition isWhole :: "rat \<Rightarrow> bool" where
  "isWhole r \<longleftrightarrow> of_int \<lfloor>r\<rfloor> = r"

definition numToString :: "(rat \<Rightarrow> string) \<Rightarrow> jsnum \<Rightarrow> string" where
  "numToString numStr n =
     (case n of
        NaN \<Rightarrow> ''NaN''
      | PosInf \<Rightarrow> ''Infinity''
      | NegInf \<Rightarrow> ''-Infinity''
      | Fin r \<Rightarrow> if isWhole r then intStr \<lfloor>r\<rfloor> else numStr r)"

text \<open>A value inside a template literal; \<open>VObj\<close> prints as a plain object does.\<close>

definition jsString :: "(rat \<Rightarrow> string) \<Rightarrow> jsval \<Rightarrow> string" where
  "jsString numStr v =
     (case v of
        VUndefined \<Rightarrow> ''undefined''
      | VNull \<Rightarrow> ''null''
      | VBool b \<Rightarrow> if b then ''true'' else ''false''
      | VNum n \<Rightarrow> numToString numStr n
      | VStr t \<Rightarrow> t
      | VObj \<Rightarrow> ''[object Object]'')"

section \<open>ShoppingListManager: scaleQuantities\<close>

definition scaleItem :: "jsnum \<Rightarrow> ingredient \<Rightarrow> ingredient" where
  "scaleItem multiplier it =
     it\<lparr> quantity := (case quantity it of Some q \<Rightarrow> Some (js_mul q multiplier) | None \<Rightarrow> None),
         scaled := True,
         originalQuantity := quantity it \<rparr>"

text \<open>
  \<open>scaleQuantities\<close>; the shopping list is \<open>None\<close> when the argument is \<open>null\<close> or
  \<open>undefined\<close>. A truthy \<open>items\<close> that is not an array has no \<open>map\<close>: the call throws
  inside the \<open>try\<close>, and the \<open>catch\<close> returns the third failure; so it does when
  \<open>organizeByCategory\<close> throws.
\<close>

definition scaleQuantities ::
  "(rat \<Rightarrow> string) \<Rightarrow> shoppingList option \<Rightarrow> jsval \<Rightarrow> string + shoppingList" where
  "scaleQuantities numStr list multiplier =
     (case multiplier of
        VNum m \<Rightarrow>
          if js_le m (Fin 0) then Inl ''Scale multiplier must be greater than 0''
          else
            (case list of
               None \<Rightarrow> Inl ''Invalid shopping list''
             | Some sl \<Rightarrow>
                 (case items sl of
                    ItemsVal v \<Rightarrow>
                      if \<not> truthy v then Inl ''Invalid shopping list''
                      else Inl ''Failed to scale quantities''
                  | ItemsArr xs \<Rightarrow>
                      let scaledItems = map (scaleItem m) xs
                      in case organizeByCategory scaledItems of
                           None \<Rightarrow> Inl ''Failed to scale quantities''
                         | Some org \<Rightarrow>
                             Inr (sl\<lparr> title := VStr (jsString numStr (title sl) @ '' (scaled ''
                                                       @ numToString numStr m @ ''x)''),
                                     items := ItemsArr scaledItems,
                                     organized := Some org,
                                     scaleMultiplier := Some m \<rparr>)))
      | _ \<Rightarrow> Inl ''Scale multiplier must be greater than 0'')"

section \<open>ReminderFormatter\<close>

text \<open>\<open>this.commonFractions\<close>, with the keys 0.25, 0.33, 0.5, 0.67 and 0.75.\<close>

definition commonFractions :: "rat \<rightharpoonup> string" where
  "commonFractions = map_of
     [(1 / 4, ''1/4''), (33 / 100, ''1/3''), (1 / 2, ''1/2''), (67 / 100, ''2/3''),
      (3 / 4, ''3/4'')]"

text \<open>\<open>Math.round(x * 100) / 100\<close>; \<open>Math.round\<close> rounds halves up.\<close>

definition round2 :: "rat \<Rightarrow> rat" where
  "round2 x = of_int \<lfloor>x * 100 + 1 / 2\<rfloor> / 100"

text \<open>The pairs \<open>(num, denom)\<close> in the order the two nested loops visit them.\<close>

definition simpleFractions :: "(nat \<times> nat) list" where
  "simpleFractions =
     concat (map (\<lambda>denom. map (\<lambda>num. (num, denom)) [1..<denom]) [2, 3, 4, 5, 6, 8, 10, 12, 16])"

definition formatFinite :: "(rat \<Rightarrow> string) \<Rightarrow> rat \<Rightarrow> string" where
  "formatFinite numStr decimal =
     (if isWhole decimal then intStr \<lfloor>decimal\<rfloor>
      else case commonFractions (round2 decimal) of
        Some f \<Rightarrow> f
      | None \<Rightarrow>
          (case (if decimal > 1 then commonFractions (round2 (decimal - of_int \<lfloor>decimal\<rfloor>))
                 else None) of
             Some f \<Rightarrow> intStr \<lfloor>decimal\<rfloor> @ '' '' @ f
           | None \<Rightarrow>
               (case find (\<lambda>(num, denom). \<bar>decimal - of_nat num / of_nat denom\<bar> < 1 / 100)
                          simpleFractions of
                  Some (num, denom) \<Rightarrow>
                    if decimal > 1
                    then intStr \<lfloor>decimal\<rfloor> @ '' '' @ natStr num @ ''/'' @ natStr denom
                    else natStr num @ ''/'' @ natStr denom
                | None \<Rightarrow> numStr decimal)))"

text \<open>\<open>formatAsFraction\<close>; \<open>None\<close> is \<open>null\<close> or \<open>undefined\<close>. For \<open>NaN\<close> and the
  infinities every test of the source is false and the number is printed as it is.\<close>

definition formatAsFraction :: "(rat \<Rightarrow> string) \<Rightarrow> jsnum option \<Rightarrow> string" where
  "formatAsFraction numStr decimal =
     (case decimal of
        None \<Rightarrow> []
      | Some (Fin r) \<Rightarrow> formatFinite numStr r
      | Some n \<Rightarrow> numToString numStr n)"

definition formatItemText :: "(rat \<Rightarrow> string) \<Rightarrow> ingredient option \<Rightarrow> string" where
  "formatItemText numStr line =
     (case line of
        None \<Rightarrow> []
      | Some it \<Rightarrow>
          (case quantity it of
             Some q \<Rightarrow>
               formatAsFraction numStr (Some q)
               @ (case unit it of None \<Rightarrow> [] | Some u \<Rightarrow> if u = [] then [] else '' '' @ u)
               @ '' ''
           | None \<Rightarrow> [])
          @ (case item it of
               None \<Rightarrow> ''Unknown item''
             | Some t \<Rightarrow> if t = [] then ''Unknown item'' else t))"

text \<open>\<open>validateShoppingList\<close>: the error, or \<open>None\<close> when the list is valid.\<close>

definition validateShoppingList :: "shoppingList option \<Rightarrow> string option" where
  "validateShoppingList list =
     (case list of
        None \<Rightarrow> Some ''Shopping list is required''
      | Some sl \<Rightarrow>
          if \<not> truthy (title sl)
             \<or> (case title sl of VStr t \<Rightarrow> trim t = [] | _ \<Rightarrow> True)
          then Some ''Shopping list must have a valid title''
          else if \<not> itemsTruthy (items sl) \<and> organized sl = None
          then Some ''Shopping list must have items or organized categories''
          else if itemsTruthy (items sl) \<and> (case items sl of ItemsArr xs \<Rightarrow> False | _ \<Rightarrow> True)
          then Some ''Shopping list items must be an array''
          else None)"

definition flattenOrganizedItems :: "(string \<times> ingredient list) list \<Rightarrow> ingredient list" where
  "flattenOrganizedItems org = concat (map snd org)"

text \<open>
  \<open>String.prototype.toUpperCase\<close>: a-z and the small letters U+00E0..U+00FE (without the
  division sign U+00F7) move down by 32 and the sharp s becomes \<open>SS\<close>. The capitals of
  U+00B5 and U+00FF lie beyond the 256 code units of the model; these two are kept.
\<close>

definition upperChar :: "char \<Rightarrow> string" where
  "upperChar c =
     (let n = (of_char c :: nat)
      in if (97 \<le> n \<and> n \<le> 122) \<or> (224 \<le> n \<and> n \<le> 254 \<and> n \<noteq> 247)
         then [char_of (n - 32)]
         else if n = 223 then ''SS'' else [c])"

definition toUpperCase :: "string \<Rightarrow> string" where
  "toUpperCase s = concat (map upperChar s)"

text \<open>
  \<open>encodeURIComponent\<close>: letters, digits and \<open>- _ . ! ~ * ' ( )\<close> stay; any other code
  unit is written as the bytes of its UTF-8 form, each as \<open>%\<close> and two hexadecimal digits.
\<close>

definition hexDigit :: "nat \<Rightarrow> char" where
  "hexDigit n = (if n < 10 then char_of (48 + n) else char_of (55 + n))"

definition percentByte :: "nat \<Rightarrow> string" where
  "percentByte b = [CHR ''%'', hexDigit (b div 16), hexDigit (b mod 16)]"

definition isUnreserved :: "char \<Rightarrow> bool" where
  "isUnreserved c \<longleftrightarrow>
     c \<in> set ''abcdefghijklmnopqrstuvwxyzABCDEFGHIJKLMNOPQRSTUVWXYZ0123456789''
     \<or> c \<in> set [CHR ''-'', CHR ''_'', CHR ''.'', CHR ''!'', CHR ''~'', CHR ''*'', CHR 0x27,
                 CHR ''('', CHR '')'']"

definition encodeChar :: "char \<Rightarrow> string" where
  "encodeChar c =
     (let n = (of_char c :: nat)
      in if isUnreserved c then [c]
         else if n < 128 then percentByte n
         else percentByte (192 + n div 64) @ percentByte (128 + n mod 64))"

definition encodeURIComponent :: "string \<Rightarrow> string" where
  "encodeURIComponent s = concat (map encodeChar s)"

text \<open>\<open>Array.prototype.join\<close> with a separator.\<close>

fun join :: "string \<Rightarrow> string list \<Rightarrow> string" where
  "join sep [] = []"
| "join sep [x] = x"
| "join sep (x # y # ys) = x @ sep @ join sep (y # ys)"

record reminderOptions =
  listName :: "string option"
  byCategory :: bool
  platform :: "string option"

text \<open>
  The text that \<open>formatForReminders\<close> builds for a valid list: one block per category
  (a blank line before every block but the first, the upper-cased name and a colon, the
  lines) when \<open>options.organizeByCategory\<close> is set and the list is organized, and the
  lines of \<open>items\<close> otherwise; trimmed at the end.
\<close>

definition categoryBlock :: "(rat \<Rightarrow> string) \<Rightarrow> string \<times> ingredient list \<Rightarrow> string" where
  "categoryBlock numStr entry =
     toUpperCase (fst entry) @ '':'' @ [CHR 0x0A]
     @ concat (map (\<lambda>it. formatItemText numStr (Some it) @ [CHR 0x0A]) (snd entry))"

definition reminderText :: "(rat \<Rightarrow> string) \<Rightarrow> shoppingList \<Rightarrow> reminderOptions \<Rightarrow> string" where
  "reminderText numStr sl options =
     trim (case (if byCategory options then organized sl else None) of
             Some org \<Rightarrow> join [CHR 0x0A] (map (categoryBlock numStr) org)
           | None \<Rightarrow>
               (case items sl of
                  ItemsArr xs \<Rightarrow> concat (map (\<lambda>it. formatItemText numStr (Some it) @ [CHR 0x0A]) xs)
                | ItemsVal v \<Rightarrow> []))"

record reminderUrl =
  url :: string
  fallbackUrl :: string
  resolvedListName :: string
  resolvedItemCount :: nat
  shortcutRequired :: bool
  shortcutName :: string
  resolvedPlatform :: string

text \<open>
  \<open>generateReminderUrl\<close>: \<open>Inl\<close> carries the error of a failure result. After the
  validation a truthy \<open>items\<close> is an array. The \<open>catch\<close> of the source
  (\<open>Failed to generate URL\<close>) is reached when a category of \<open>organized\<close> holds something
  other than an array, or when a text holds a lone surrogate that \<open>encodeURIComponent\<close>
  refuses; the types of this model have neither, so the function has no such case.
\<close>

definition generateReminderUrl ::
  "(rat \<Rightarrow> string) \<Rightarrow> shoppingList option \<Rightarrow> reminderOptions \<Rightarrow> string + reminderUrl" where
  "generateReminderUrl numStr list options =
     (case validateShoppingList list of
        Some e \<Rightarrow> Inl e
      | None \<Rightarrow>
          (case list of
             None \<Rightarrow> Inl ''Shopping list is required''
           | Some sl \<Rightarrow>
               (case items sl of
                  ItemsVal v \<Rightarrow> Inl ''Shopping list is empty''
                | ItemsArr xs \<Rightarrow>
                    if xs = [] then Inl ''Shopping list is empty''
                    else
                      let name = (case listName options of
                                    None \<Rightarrow> jsString numStr (title sl)
                                  | Some n \<Rightarrow> if n = [] then jsString numStr (title sl) else n);
                          its = (case (if byCategory options then organized sl else None) of
                                   Some org \<Rightarrow> flattenOrganizedItems org
                                 | None \<Rightarrow> xs);
                          itemTexts = map (\<lambda>it. formatItemText numStr (Some it)) its;
                          simpleText = name @ [CHR 0x0A, CHR 0x0A] @ join [CHR 0x0A] itemTexts
                      in Inr \<lparr> url = ''shortcuts://run-shortcut?name=''
                                       @ encodeURIComponent ''Add Shopping List to Reminders''
                                       @ ''&input='' @ encodeURIComponent simpleText,
                                 fallbackUrl = ''x-apple-reminderkit://REMSaveRequest?reminderText=''
                                       @ encodeURIComponent (reminderText numStr sl options)
                                       @ ''&listName='' @ encodeURIComponent name,
                                 resolvedListName = name,
                                 resolvedItemCount = length its,
                                 shortcutRequired = True,
                                 shortcutName = ''Add Shopping List to Reminders'',
                                 resolvedPlatform = (case platform options of
                                                       None \<Rightarrow> ''ios''
                                                     | Some pl \<Rightarrow> if pl = [] then ''ios'' else pl) \<rparr>)))"

section \<open>The specification's reading of the operations\<close>

text \<open>The definitions of this section follow the words of the specification; the
  theorems compare them with the functions above.\<close>

subsection \<open>Consolidation by groups\<close>

text \<open>A line counts when it is an object with a non-empty \<open>item\<close>.\<close>

definition validLine :: "ingredient option \<Rightarrow> bool" where
  "validLine x =
     (case x of
        None \<Rightarrow> False
      | Some i \<Rightarrow> (case item i of None \<Rightarrow> False | Some t \<Rightarrow> t \<noteq> []))"

definition validLines :: "ingredient option list \<Rightarrow> ingredient list" where
  "validLines xs = List.map_filter (\<lambda>x. if validLine x then x else None) xs"

definition lineKey :: "ingredient \<Rightarrow> string" where
  "lineKey i = groupKey (case item i of Some t \<Rightarrow> t | None \<Rightarrow> []) (unit i)"

text \<open>
  The record that stands for a group with first member \<open>first\<close> and later members
  \<open>rest\<close>: when the first member has a quantity and some later member has one, the
  later quantities are added to it in order and the record is marked; otherwise the first
  member as it is.
\<close>

definition mergeGroup :: "ingredient \<Rightarrow> ingredient list \<Rightarrow> ingredient" where
  "mergeGroup first rest =
     (case quantity first of
        None \<Rightarrow> first
      | Some q0 \<Rightarrow>
          if List.map_filter quantity rest = [] then first
          else first\<lparr>quantity := Some (foldl js_add q0 (List.map_filter quantity rest)),
                     consolidated := True\<rparr>)"

text \<open>One record per key, in the order in which the keys first appear.\<close>

function consolidateByGroups :: "ingredient list \<Rightarrow> ingredient list" where
  "consolidateByGroups [] = []"
| "consolidateByGroups (first # rest) =
     mergeGroup first (filter (\<lambda>i. lineKey i = lineKey first) rest)
     # consolidateByGroups (filter (\<lambda>i. lineKey i \<noteq> lineKey first) rest)"
  by pat_completeness auto
termination
  by (relation "measure length") (auto simp: less_Suc_eq_le)

text \<open>The canonical units are the values of the unit table.\<close>

definition canonicalUnit :: "string option \<Rightarrow> bool" where
  "canonicalUnit u = (case u of None \<Rightarrow> True | Some c \<Rightarrow> c \<in> ran unitMap)"

text \<open>A plain unit is absent, or a non-empty text without a hyphen other than \<open>unit\<close>;
  on plain units the key text tells the pair of item and unit.\<close>

definition plainUnit :: "string option \<Rightarrow> bool" where
  "plainUnit u =
     (case u of None \<Rightarrow> True | Some c \<Rightarrow> c \<noteq> [] \<and> CHR ''-'' \<notin> set c \<and> c \<noteq> ''unit'')"

subsection \<open>The text that remains\<close>

text \<open>What is left of the working copy of \<open>parseIngredient\<close> after the quantity and the
  unit have been cut off.\<close>

definition remainingText :: "string \<Rightarrow> string" where
  "remainingText ingredientText =
     (let (q, remaining1) = quantityStep (toLowerCase (trim ingredientText))
      in snd (unitStep q remaining1))"

subsection \<open>The consolidation step on valid lines\<close>

text \<open>What \<open>consolidateStep\<close> does to the stored record when a valid line meets its
  key again, and the step itself on a valid line; the proofs go through these two.\<close>

definition absorb :: "ingredient \<Rightarrow> ingredient \<Rightarrow> ingredient" where
  "absorb existing ing =
     (case quantity existing of
        None \<Rightarrow> existing
      | Some q \<Rightarrow>
          (case quantity ing of
             None \<Rightarrow> existing
           | Some q' \<Rightarrow> existing\<lparr>quantity := Some (js_add q q'), consolidated := True\<rparr>))"

definition validStep ::
  "(string \<times> ingredient) list \<Rightarrow> ingredient \<Rightarrow> (string \<times> ingredient) list" where
  "validStep entries ing =
     (case map_of entries (lineKey ing) of
        Some existing \<Rightarrow> AList.update (lineKey ing) (absorb existing ing) entries
      | None \<Rightarrow> entries @ [(lineKey ing, ing)])"

subsection \<open>Sample data\<close>

text \<open>A printing function for the numbers that are not whole, used where an example
  needs one; the examples print no such number.\<close>

definition sampleNumStr :: "rat \<Rightarrow> string" where
  "sampleNumStr r = ''?''"

definition sampleLine :: "string \<Rightarrow> string option \<Rightarrow> jsnum option \<Rightarrow> ingredient" where
  "sampleLine t u q =
     \<lparr> quantity = q, unit = u, item = Some t, originalText = None, category = None,
       consolidated = False, scaled = False, originalQuantity = None \<rparr>"

section \<open>The categorizer\<close>

lemma matchesAny_iff: "matchesAny l ks \<longleftrightarrow> (\<exists>k\<in>set ks. sublist k l)"
  by (induction ks) auto

lemma scanCategories_find:
  "scanCategories l entries =
     map_option fst (find (\<lambda>(c, kws). \<exists>k\<in>set kws. sublist k l) entries)"
  by (induction entries) (auto simp: matchesAny_iff)

lemma scanCategories_empty: "scanCategories [] categoryMap = None"
  by code_simp

lemma categoryMap_order:
  "map fst categoryMap = [''meat'', ''vegetables'', ''spices'', ''dairy'', ''pantry'']"
  by (simp add: categoryMap_def)

lemma categorize_green_onions: "categorizeIngredient ''green onions'' = ''vegetables''"
  by code_simp

lemma categorize_capitals:
  "toLowerCase ''Green ONIONS'' = ''green onions''"
  "categorizeIngredient ''Green ONIONS'' = ''vegetables''"
  "categorizeIngredient ''SALT'' = ''spices''"
  by code_simp+

text \<open>
  Claim C4. For every item text, \<open>categorizeIngredient\<close> lower-cases the text and goes
  through the categories in the order meat, vegetables, spices, dairy, pantry; it returns
  the first category that has a keyword occurring anywhere in the lower-cased text, as a
  plain substring (so \<open>green onions\<close> is a vegetable through the keyword \<open>onion\<close>, and so
  is \<open>Green ONIONS\<close>, whose capitals are lower-cased first), and \<open>pantry\<close> when no
  category has one or the text is empty.
\<close>

theorem categorizeIngredient_first_match:
  "map fst categoryMap = [''meat'', ''vegetables'', ''spices'', ''dairy'', ''pantry'']
   \<and> categorizeIngredient t =
       (case find (\<lambda>(c, kws). \<exists>k\<in>set kws. \<exists>p q. toLowerCase t = p @ k @ q) categoryMap of
          Some (c, kws) \<Rightarrow> c
        | None \<Rightarrow> ''pantry'')
   \<and> categorizeIngredient ''green onions'' = ''vegetables''
   \<and> categorizeIngredient [] = ''pantry''
   \<and> toLowerCase ''Green ONIONS'' = ''green onions''
   \<and> categorizeIngredient ''Green ONIONS'' = ''vegetables''
   \<and> categorizeIngredient ''SALT'' = ''spices''"
proof -
  have eq: "categorizeIngredient t =
       (case scanCategories (toLowerCase t) categoryMap of Some c \<Rightarrow> c | None \<Rightarrow> ''pantry'')"
    by (cases "t = []") (simp_all add: categorizeIngredient_def toLowerCase_def scanCategories_empty)
  have "categorizeIngredient t =
       (case find (\<lambda>(c, kws). \<exists>k\<in>set kws. \<exists>p q. toLowerCase t = p @ k @ q) categoryMap of
          Some (c, kws) \<Rightarrow> c
        | None \<Rightarrow> ''pantry'')"
    unfolding eq scanCategories_find sublist_def
    by (simp split: option.splits prod.splits)
  moreover have "categorizeIngredient [] = ''pantry''"
    by (simp add: categorizeIngredient_def)
  ultimately show ?thesis
    using categoryMap_order categorize_green_onions categorize_capitals by simp
qed

section \<open>Fractions there and back\<close>

text \<open>
  Claim C9. For each of the texts \<open>1/2\<close>, \<open>1/4\<close>, \<open>3/4\<close>, \<open>1/3\<close> and \<open>2/3\<close>,
  \<open>formatAsFraction\<close> of \<open>parseFraction\<close> of the text is the text again.
\<close>

theorem fraction_round_trip:
  "formatAsFraction numStr (parseFraction ''1/2'') = ''1/2''
   \<and> formatAsFraction numStr (parseFraction ''1/4'') = ''1/4''
   \<and> formatAsFraction numStr (parseFraction ''3/4'') = ''3/4''
   \<and> formatAsFraction numStr (parseFraction ''1/3'') = ''1/3''
   \<and> formatAsFraction numStr (parseFraction ''2/3'') = ''2/3''"
  by code_simp

section \<open>Reminder links\<close>

lemma validateShoppingList_titled:
  assumes "title sl = VStr t" "trim t \<noteq> []"
  shows "validateShoppingList (Some sl) =
           (case items sl of
              ItemsVal v \<Rightarrow>
                if truthy v then Some ''Shopping list items must be an array''
                else if organized sl = None
                then Some ''Shopping list must have items or organized categories''
                else None
            | ItemsArr xs \<Rightarrow> None)"
proof -
  from assms have "t \<noteq> []" by (auto simp: trim_def)
  with assms show ?thesis
    by (simp add: validateShoppingList_def split: itemsField.splits)
qed

lemma validateShoppingList_untitled:
  assumes "\<not> (\<exists>t. title sl = VStr t \<and> trim t \<noteq> [])"
  shows "validateShoppingList (Some sl) = Some ''Shopping list must have a valid title''"
  using assms by (cases "title sl") (simp_all add: validateShoppingList_def)

text \<open>
  The cases of \<open>generateReminderUrl\<close>, for reference: the failures of the validator,
  the failure of the guard on \<open>items\<close> that follows it, and the success.
\<close>

lemma generateReminderUrl_cases:
  "generateReminderUrl numStr None options = Inl ''Shopping list is required''
   \<and> (\<not> (\<exists>t. title sl = VStr t \<and> trim t \<noteq> []) \<longrightarrow>
        generateReminderUrl numStr (Some sl) options = Inl ''Shopping list must have a valid title'')
   \<and> (title sl = VStr t \<and> trim t \<noteq> [] \<longrightarrow>
        (\<not> itemsTruthy (items sl) \<and> organized sl = None \<longrightarrow>
           generateReminderUrl numStr (Some sl) options
             = Inl ''Shopping list must have items or organized categories'')
        \<and> (itemsTruthy (items sl) \<and> (\<forall>xs. items sl \<noteq> ItemsArr xs) \<longrightarrow>
           generateReminderUrl numStr (Some sl) options
             = Inl ''Shopping list items must be an array'')
        \<and> ((\<not> itemsTruthy (items sl) \<and> organized sl \<noteq> None) \<or> items sl = ItemsArr [] \<longrightarrow>
           generateReminderUrl numStr (Some sl) options = Inl ''Shopping list is empty'')
        \<and> (items sl = ItemsArr xs \<and> xs \<noteq> [] \<longrightarrow>
           (\<exists>r. generateReminderUrl numStr (Some sl) options = Inr r
              \<and> resolvedListName r =
                  (case listName options of None \<Rightarrow> t | Some n \<Rightarrow> if n = [] then t else n)
              \<and> resolvedItemCount r =
                  length (case (if byCategory options then organized sl else None) of
                            Some org \<Rightarrow> concat (map snd org)
                          | None \<Rightarrow> xs)
              \<and> prefix ''shortcuts://run-shortcut?name='' (url r)
              \<and> prefix ''x-apple-reminderkit://REMSaveRequest?reminderText='' (fallbackUrl r))))"
proof (intro conjI impI)
  show "generateReminderUrl numStr None options = Inl ''Shopping list is required''"
    by (simp add: generateReminderUrl_def validateShoppingList_def)
next
  assume "\<not> (\<exists>t. title sl = VStr t \<and> trim t \<noteq> [])"
  then show "generateReminderUrl numStr (Some sl) options = Inl ''Shopping list must have a valid title''"
    by (simp add: generateReminderUrl_def validateShoppingList_untitled)
next
  assume t: "title sl = VStr t \<and> trim t \<noteq> []" and "\<not> itemsTruthy (items sl) \<and> organized sl = None"
  then show "generateReminderUrl numStr (Some sl) options
             = Inl ''Shopping list must have items or organized categories''"
    by (cases "items sl") (simp_all add: generateReminderUrl_def validateShoppingList_titled)
next
  assume t: "title sl = VStr t \<and> trim t \<noteq> []"
    and "itemsTruthy (items sl) \<and> (\<forall>xs. items sl \<noteq> ItemsArr xs)"
  then show "generateReminderUrl numStr (Some sl) options = Inl ''Shopping list items must be an array''"
    by (cases "items sl") (simp_all add: generateReminderUrl_def validateShoppingList_titled)
next
  assume t: "title sl = VStr t \<and> trim t \<noteq> []"
    and "(\<not> itemsTruthy (items sl) \<and> organized sl \<noteq> None) \<or> items sl = ItemsArr []"
  then show "generateReminderUrl numStr (Some sl) options = Inl ''Shopping list is empty''"
    by (cases "items sl") (auto simp: generateReminderUrl_def validateShoppingList_titled)
next
  assume t: "title sl = VStr t \<and> trim t \<noteq> []" and x: "items sl = ItemsArr xs \<and> xs \<noteq> []"
  then have v: "validateShoppingList (Some sl) = None"
    by (simp add: validateShoppingList_titled)
  show "\<exists>r. generateReminderUrl numStr (Some sl) options = Inr r
              \<and> resolvedListName r =
                  (case listName options of None \<Rightarrow> t | Some n \<Rightarrow> if n = [] then t else n)
              \<and> resolvedItemCount r =
                  length (case (if byCategory options then organized sl else None) of
                            Some org \<Rightarrow> concat (map snd org)
                          | None \<Rightarrow> xs)
              \<and> prefix ''shortcuts://run-shortcut?name='' (url r)
              \<and> prefix ''x-apple-reminderkit://REMSaveRequest?reminderText='' (fallbackUrl r)"
    using t x v
    by (simp add: generateReminderUrl_def Let_def jsString_def flattenOrganizedItems_def
             split: option.splits)
qed

text \<open>The validator accepts a titled list that holds its lines in \<open>organized\<close> only.\<close>

lemma validator_accepts_organized_only:
  "validateShoppingList
     (Some \<lparr> title = VStr ''Groceries'', items = ItemsVal VUndefined,
             organized = Some [(''pantry'', [sampleLine ''flour'' (Some ''cup'') (Some (Fin 2))])],
             recipes = [], itemCount = 1, scaleMultiplier = None \<rparr>) = None"
  by code_simp

text \<open>
  Claim C8 says that the call fails for a list without a title, for one with neither
  items nor organized categories and for one whose \<open>items\<close> is not an array, and that
  it succeeds otherwise. A titled list that holds its lines in \<open>organized\<close> only, with
  no \<open>items\<close> property, is none of the three, and the validator accepts it; with
  \<open>organizeByCategory\<close> set the lines to write are the ones of the categories, one
  here. The guard \<open>!shoppingList.items || shoppingList.items.length === 0\<close> that follows
  the validation fails it all the same.
\<close>

theorem generateReminderUrl_organized_only:
  "flattenOrganizedItems [(''pantry'', [sampleLine ''flour'' (Some ''cup'') (Some (Fin 2))])]
     = [sampleLine ''flour'' (Some ''cup'') (Some (Fin 2))]
   \<and> generateReminderUrl sampleNumStr
       (Some \<lparr> title = VStr ''Groceries'', items = ItemsVal VUndefined,
               organized = Some [(''pantry'', [sampleLine ''flour'' (Some ''cup'') (Some (Fin 2))])],
               recipes = [], itemCount = 1, scaleMultiplier = None \<rparr>)
       \<lparr> listName = None, byCategory = True, platform = None \<rparr>
     = Inl ''Shopping list is empty''"
  by code_simp

section \<open>The case of the item text\<close>

lemma lowerChar_idem: "lowerChar (lowerChar c) = lowerChar c"
  unfolding lowerChar_def Let_def
  by (auto simp: of_char_of)

lemma toLowerCase_subset:
  assumes "set t \<subseteq> set (toLowerCase s)"
  shows "toLowerCase t = t"
proof -
  have "lowerChar c = c" if "c \<in> set t" for c
  proof -
    from that assms obtain d where "c = lowerChar d"
      by (auto simp: toLowerCase_def)
    then show ?thesis by (simp add: lowerChar_idem)
  qed
  then show ?thesis by (simp add: toLowerCase_def map_idI)
qed

lemma set_trim: "set (trim t) \<subseteq> set t"
proof -
  have "set (trim t) \<subseteq> set (dropWhile isSpace t)"
    unfolding trim_def using set_dropWhileD[of _ isSpace "rev (dropWhile isSpace t)"] by auto
  also have "\<dots> \<subseteq> set t"
    using set_dropWhileD[of _ isSpace t] by auto
  finally show ?thesis .
qed

lemma quantityTail_suffix:
  assumes "quantityTail r = Some (m, rest)"
  shows "suffix rest r"
proof (cases r)
  case Nil
  with assms show ?thesis by (simp add: quantityTail_def)
next
  case (Cons c r1)
  show ?thesis
  proof (cases "isSpace c")
    case True
    with assms Cons obtain sl r3 where
      d: "dropWhile isDigit (dropWhile isSpace r) = sl # r3" and rest: "rest = dropWhile isDigit r3"
      by (auto simp: quantityTail_def Let_def split: list.splits if_splits)
    have "suffix rest r3" by (simp add: rest suffix_dropWhile)
    also have "suffix r3 (sl # r3)" by (simp add: suffix_ConsI)
    also have "suffix (sl # r3) (dropWhile isSpace r)"
      using d suffix_dropWhile[of isDigit "dropWhile isSpace r"] by simp
    also have "suffix (dropWhile isSpace r) r" by (rule suffix_dropWhile)
    finally show ?thesis .
  next
    case False
    with assms Cons have "rest = dropWhile isDigit r1"
      by (auto simp: quantityTail_def split: if_splits)
    then have "suffix rest r1" by (simp add: suffix_dropWhile)
    then show ?thesis using Cons by (simp add: suffix_ConsI)
  qed
qed

lemma quantityMatch_suffix:
  assumes "quantityMatch t = Some (m, rest)"
  shows "suffix rest t"
proof (cases "quantityTail (dropWhile isDigit t)")
  case None
  with assms have "rest = dropWhile isDigit t"
    by (auto simp: quantityMatch_def Let_def split: if_splits)
  then show ?thesis by (simp add: suffix_dropWhile)
next
  case (Some p)
  obtain m' rest' where p: "p = (m', rest')" by (cases p)
  with Some assms have "rest = rest'"
    by (auto simp: quantityMatch_def Let_def split: if_splits)
  with Some p have "suffix rest (dropWhile isDigit t)"
    using quantityTail_suffix by blast
  then show ?thesis
    using suffix_dropWhile[of isDigit t] suffix_order.trans by blast
qed

lemma quantityStep_subset: "set (snd (quantityStep t)) \<subseteq> set t"
proof (cases "quantityMatch t")
  case None
  then show ?thesis by (simp add: quantityStep_def)
next
  case (Some p)
  obtain m rest where p: "p = (m, rest)" by (cases p)
  with Some have "set rest \<subseteq> set t"
    using quantityMatch_suffix set_mono_suffix by blast
  with Some p show ?thesis
    using set_trim[of rest] by (auto simp: quantityStep_def)
qed

lemma unitStep_subset: "set (snd (unitStep q t)) \<subseteq> set t"
proof -
  have "set (trim (drop n t)) \<subseteq> set t" for n
    using set_trim[of "drop n t"] set_drop_subset[of n t] by blast
  then show ?thesis by (auto simp: unitStep_def Let_def)
qed

lemma remainingText_subset: "set (remainingText s) \<subseteq> set (toLowerCase (trim s))"
proof -
  obtain q r1 where qs: "quantityStep (toLowerCase (trim s)) = (q, r1)"
    by (cases "quantityStep (toLowerCase (trim s))")
  have "set (snd (unitStep q r1)) \<subseteq> set r1" by (rule unitStep_subset)
  also have "set r1 \<subseteq> set (toLowerCase (trim s))"
    using quantityStep_subset[of "toLowerCase (trim s)"] qs by simp
  finally show ?thesis by (simp add: remainingText_def qs)
qed

lemma parseLine_item:
  "item (parseLine s) = Some (if remainingText s = [] then trim s else remainingText s)"
  by (simp add: parseLine_def remainingText_def Let_def split: prod.splits)

text \<open>
  Claim C5, as stated: the item of every record is lower-case, also when nothing remains
  after the quantity and the unit and the item falls back to the original text. For
  \<open>2 Cups\<close> nothing remains, and the item is the original text with its capital.
\<close>

theorem parseIngredient_keeps_capitals:
  "map_option item (parseIngredient (VStr ''2 Cups'')) = Some (Some ''2 Cups'')
   \<and> toLowerCase ''2 Cups'' \<noteq> ''2 Cups''"
  by code_simp

text \<open>
  A unit is cut off when the lookup in the unit table finds a value, which it also does
  for the names the table inherits: nothing remains of \<open>2 Constructor\<close>, and its item
  is the original text.
\<close>

lemma inherited_name_cut_off:
  "remainingText ''2 Constructor'' = []
   \<and> map_option item (parseIngredient (VStr ''2 Constructor'')) = Some (Some ''2 Constructor'')
   \<and> map_option item (parseIngredient (VStr ''2 __proto__ Beans'')) = Some (Some ''beans'')"
  by code_simp

text \<open>
  Claim C5, amended. For every input on which \<open>parseIngredient\<close> returns a record: when
  some text remains after the quantity and the unit have been cut off, the item is that
  text, and it is entirely lower-case whatever the case of the input; when nothing
  remains, the item is the trimmed original text, in the case it was given in.
\<close>

theorem parseIngredient_item_case:
  assumes "parseIngredient (VStr s) = Some r"
  shows "item r = Some (if remainingText s = [] then trim s else remainingText s)
         \<and> toLowerCase (remainingText s) = remainingText s"
proof -
  from assms have "r = parseLine s"
    by (auto simp: parseIngredient_def split: if_splits)
  then show ?thesis
    using parseLine_item toLowerCase_subset[OF remainingText_subset] by simp
qed

theorem parseIngredient_item_case_witness:
  "parseIngredient (VStr ''2 Cups Flour'') = Some (parseLine ''2 Cups Flour'')
   \<and> item (parseLine ''2 Cups Flour'') = Some ''flour''
   \<and> remainingText ''2 Cups Flour'' = ''flour''"
proof -
  have h: "parseIngredient (VStr ''2 Cups Flour'') = Some (parseLine ''2 Cups Flour'')"
    by (simp add: parseIngredient_def)
  have r: "remainingText ''2 Cups Flour'' = ''flour''" by code_simp
  from parseIngredient_item_case[OF h] r h show ?thesis by simp
qed

section \<open>When parseIngredient returns null, and what it returns otherwise\<close>

lemma scanCategories_range:
  "scanCategories l entries = Some c \<Longrightarrow> c \<in> fst ` set entries"
  by (induction entries) (auto split: if_splits)

lemma categorize_range:
  "categorizeIngredient t \<in> set [''meat'', ''vegetables'', ''spices'', ''dairy'', ''pantry'']"
proof (cases "scanCategories (toLowerCase t) categoryMap")
  case None
  then show ?thesis by (simp add: categorizeIngredient_def)
next
  case (Some c)
  from scanCategories_range[OF this] have "c \<in> set (map fst categoryMap)" by simp
  then have "c \<in> set [''meat'', ''vegetables'', ''spices'', ''dairy'', ''pantry'']"
    by (simp only: categoryMap_order)
  with Some show ?thesis by (simp add: categorizeIngredient_def)
qed

lemma unitStep_needs_quantity: "fst (unitStep q r) \<noteq> None \<Longrightarrow> q \<noteq> None"
  by (auto simp: unitStep_def Let_def split: if_splits)

lemma parseLine_fields:
  "originalText (parseLine s) = Some (trim s)
   \<and> (\<exists>it. item (parseLine s) = Some it
          \<and> (it = [] \<longleftrightarrow> trim s = [])
          \<and> category (parseLine s) = Some (categorizeIngredient it))
   \<and> quantity (parseLine s) = fst (quantityStep (toLowerCase (trim s)))
   \<and> unit (parseLine s) = fst (unitStep (quantity (parseLine s))
                                       (snd (quantityStep (toLowerCase (trim s)))))
   \<and> (unit (parseLine s) \<noteq> None \<longrightarrow> quantity (parseLine s) \<noteq> None)
   \<and> \<not> consolidated (parseLine s)"
proof -
  obtain q r1 where qs: "quantityStep (toLowerCase (trim s)) = (q, r1)"
    by (cases "quantityStep (toLowerCase (trim s))")
  obtain u r2 where us: "unitStep q r1 = (u, r2)"
    by (cases "unitStep q r1")
  have uq: "u \<noteq> None \<longrightarrow> q \<noteq> None"
    using unitStep_needs_quantity[of q r1] us by simp
  have "set r2 \<subseteq> set (toLowerCase (trim s))"
    using remainingText_subset[of s] by (simp add: remainingText_def qs us)
  then have "trim s = [] \<longrightarrow> r2 = []"
    by (auto simp: toLowerCase_def)
  with uq show ?thesis
    by (auto simp: parseLine_def qs us Let_def)
qed

text \<open>
  Claim C6, as stated: every string, the empty one included, gives a record. The empty
  string is falsy and gives \<open>null\<close>.
\<close>

theorem parseIngredient_empty_string: "parseIngredient (VStr []) = None"
  by (simp add: parseIngredient_def)

text \<open>
  Claim C6, amended. \<open>parseIngredient\<close> returns \<open>null\<close> exactly for the arguments that
  are not a non-empty string: a value that is not a string, and the empty string. For
  every string that holds a character other than white space the result is a structured
  record: its \<open>originalText\<close> is the trimmed input, its \<open>item\<close> is not empty (the text
  that remains after the quantity and the unit, or else the trimmed input), its
  \<open>category\<close> is the category of the item and one of the five, its \<open>quantity\<close> and
  its \<open>unit\<close> are the ones the quantity step and the unit step find, it has a unit
  only together with a quantity, and it is not marked consolidated.
\<close>

theorem parseIngredient_null_iff:
  "(parseIngredient v = None) = (\<not> (\<exists>t. v = VStr t \<and> t \<noteq> []))
   \<and> (trim t \<noteq> [] \<longrightarrow>
       (\<exists>r it. parseIngredient (VStr t) = Some r
          \<and> originalText r = Some (trim t)
          \<and> item r = Some it \<and> it \<noteq> []
          \<and> it = (if remainingText t = [] then trim t else remainingText t)
          \<and> category r = Some (categorizeIngredient it)
          \<and> categorizeIngredient it \<in> set [''meat'', ''vegetables'', ''spices'', ''dairy'', ''pantry'']
          \<and> quantity r = fst (quantityStep (toLowerCase (trim t)))
          \<and> unit r = fst (unitStep (quantity r) (snd (quantityStep (toLowerCase (trim t)))))
          \<and> (unit r \<noteq> None \<longrightarrow> quantity r \<noteq> None)
          \<and> \<not> consolidated r))"
proof (intro conjI impI)
  show "(parseIngredient v = None) = (\<not> (\<exists>t. v = VStr t \<and> t \<noteq> []))"
    by (cases v) (simp_all add: parseIngredient_def)
next
  assume ne: "trim t \<noteq> []"
  then have "t \<noteq> []" by (auto simp: trim_def)
  then have p: "parseIngredient (VStr t) = Some (parseLine t)"
    by (simp add: parseIngredient_def)
  from parseLine_fields[of t] obtain it where
    f: "originalText (parseLine t) = Some (trim t)"
       "item (parseLine t) = Some it" "it = [] \<longleftrightarrow> trim t = []"
       "category (parseLine t) = Some (categorizeIngredient it)"
       "quantity (parseLine t) = fst (quantityStep (toLowerCase (trim t)))"
       "unit (parseLine t) = fst (unitStep (quantity (parseLine t))
                                           (snd (quantityStep (toLowerCase (trim t)))))"
       "unit (parseLine t) \<noteq> None \<longrightarrow> quantity (parseLine t) \<noteq> None"
       "\<not> consolidated (parseLine t)"
    by blast
  have i: "it = (if remainingText t = [] then trim t else remainingText t)"
    using f(2) parseLine_item[of t] by simp
  show "\<exists>r it. parseIngredient (VStr t) = Some r
          \<and> originalText r = Some (trim t)
          \<and> item r = Some it \<and> it \<noteq> []
          \<and> it = (if remainingText t = [] then trim t else remainingText t)
          \<and> category r = Some (categorizeIngredient it)
          \<and> categorizeIngredient it \<in> set [''meat'', ''vegetables'', ''spices'', ''dairy'', ''pantry'']
          \<and> quantity r = fst (quantityStep (toLowerCase (trim t)))
          \<and> unit r = fst (unitStep (quantity r) (snd (quantityStep (toLowerCase (trim t)))))
          \<and> (unit r \<noteq> None \<longrightarrow> quantity r \<noteq> None)
          \<and> \<not> consolidated r"
    using p f ne i categorize_range[of it] by blast
qed

theorem parseIngredient_null_iff_witness:
  "trim ''  2 Cups Flour '' \<noteq> []
   \<and> (\<exists>r. parseIngredient (VStr ''  2 Cups Flour '') = Some r
          \<and> originalText r = Some ''2 Cups Flour''
          \<and> item r = Some ''flour''
          \<and> category r = Some ''pantry'')"
proof -
  have t: "trim ''  2 Cups Flour '' = ''2 Cups Flour''" by code_simp
  have r: "remainingText ''  2 Cups Flour '' = ''flour''" by code_simp
  have c: "categorizeIngredient ''flour'' = ''pantry''" by code_simp
  from parseIngredient_null_iff[of "VStr ''  2 Cups Flour ''" "''  2 Cups Flour ''"] t r c
  show ?thesis by auto
qed

section \<open>Two recipes, one list\<close>

text \<open>
  Claim C3. The shopping list generated from the recipes \<open>r1\<close> (BBQ Ribs: 2 lbs baby back
  ribs, 1/2 cup brown sugar, 1 tsp salt) and \<open>r2\<close> (BBQ Sauce: 1/4 cup brown sugar, 2 tsp
  salt, 1 cup ketchup) is a success with exactly four lines, of which the brown sugar has
  the quantity 0.75 and is marked consolidated, and the salt has the quantity 3 and is
  marked consolidated.
\<close>

theorem bbq_scenario:
  "generateFromMultipleRecipes
     (IsArray
        [Some \<lparr> recipe_id = ''r1'', recipe_title = ''BBQ Ribs'',
                 ingredients = Some [VStr ''2 lbs baby back ribs'', VStr ''1/2 cup brown sugar'',
                                     VStr ''1 tsp salt''] \<rparr>,
         Some \<lparr> recipe_id = ''r2'', recipe_title = ''BBQ Sauce'',
                 ingredients = Some [VStr ''1/4 cup brown sugar'', VStr ''2 tsp salt'',
                                     VStr ''1 cup ketchup''] \<rparr>])
     None
   = Inr \<lparr> title = VStr ''Combined Recipes - Shopping List'',
           items = ItemsArr
             [\<lparr> quantity = Some (Fin 2), unit = Some ''pound'', item = Some ''baby back ribs'',
                originalText = Some ''2 lbs baby back ribs'', category = Some ''meat'',
                consolidated = False, scaled = False, originalQuantity = None \<rparr>,
              \<lparr> quantity = Some (Fin (3 / 4)), unit = Some ''cup'', item = Some ''brown sugar'',
                originalText = Some ''1/2 cup brown sugar'', category = Some ''pantry'',
                consolidated = True, scaled = False, originalQuantity = None \<rparr>,
              \<lparr> quantity = Some (Fin 3), unit = Some ''teaspoon'', item = Some ''salt'',
                originalText = Some ''1 tsp salt'', category = Some ''spices'',
                consolidated = True, scaled = False, originalQuantity = None \<rparr>,
              \<lparr> quantity = Some (Fin 1), unit = Some ''cup'', item = Some ''ketchup'',
                originalText = Some ''1 cup ketchup'', category = Some ''pantry'',
                consolidated = False, scaled = False, originalQuantity = None \<rparr>],
           organized = Some
             [(''meat'',
               [\<lparr> quantity = Some (Fin 2), unit = Some ''pound'', item = Some ''baby back ribs'',
                  originalText = Some ''2 lbs baby back ribs'', category = Some ''meat'',
                  consolidated = False, scaled = False, originalQuantity = None \<rparr>]),
              (''pantry'',
               [\<lparr> quantity = Some (Fin (3 / 4)), unit = Some ''cup'', item = Some ''brown sugar'',
                  originalText = Some ''1/2 cup brown sugar'', category = Some ''pantry'',
                  consolidated = True, scaled = False, originalQuantity = None \<rparr>,
                \<lparr> quantity = Some (Fin 1), unit = Some ''cup'', item = Some ''ketchup'',
                  originalText = Some ''1 cup ketchup'', category = Some ''pantry'',
                  consolidated = False, scaled = False, originalQuantity = None \<rparr>]),
              (''spices'',
               [\<lparr> quantity = Some (Fin 3), unit = Some ''teaspoon'', item = Some ''salt'',
                  originalText = Some ''1 tsp salt'', category = Some ''spices'',
                  consolidated = True, scaled = False, originalQuantity = None \<rparr>])],
           recipes = [''r1'', ''r2''], itemCount = 4, scaleMultiplier = None \<rparr>"
  by code_simp

section \<open>Scaling by a number that is not finite\<close>

text \<open>
  Claim C7 says that a multiplier that is not a finite positive number gives a failure.
  The guard of \<open>scaleQuantities\<close> is \<open>multiplier <= 0\<close>, which is false for \<open>Infinity\<close> and
  for \<open>NaN\<close>: with a valid list both give a success, whose quantities are \<open>Infinity\<close>
  and \<open>NaN\<close>.
\<close>

theorem scaleQuantities_not_finite:
  "scaleQuantities numStr
     (Some \<lparr> title = VStr ''List'',
             items = ItemsArr [sampleLine ''flour'' (Some ''cup'') (Some (Fin 2))],
             organized = None, recipes = [], itemCount = 1, scaleMultiplier = None \<rparr>)
     (VNum PosInf)
   = Inr \<lparr> title = VStr ''List (scaled Infinityx)'',
           items = ItemsArr [(sampleLine ''flour'' (Some ''cup'') (Some PosInf))
                               \<lparr>scaled := True, originalQuantity := Some (Fin 2)\<rparr>],
           organized = Some [(''pantry'', [(sampleLine ''flour'' (Some ''cup'') (Some PosInf))
                               \<lparr>scaled := True, originalQuantity := Some (Fin 2)\<rparr>])],
           recipes = [], itemCount = 1, scaleMultiplier = Some PosInf \<rparr>
   \<and> scaleQuantities numStr
     (Some \<lparr> title = VStr ''List'',
             items = ItemsArr [sampleLine ''flour'' (Some ''cup'') (Some (Fin 2))],
             organized = None, recipes = [], itemCount = 1, scaleMultiplier = None \<rparr>)
     (VNum NaN)
   = Inr \<lparr> title = VStr ''List (scaled NaNx)'',
           items = ItemsArr [(sampleLine ''flour'' (Some ''cup'') (Some NaN))
                               \<lparr>scaled := True, originalQuantity := Some (Fin 2)\<rparr>],
           organized = Some [(''pantry'', [(sampleLine ''flour'' (Some ''cup'') (Some NaN))
                               \<lparr>scaled := True, originalQuantity := Some (Fin 2)\<rparr>])],
           recipes = [], itemCount = 1, scaleMultiplier = Some NaN \<rparr>"
  by code_simp

section \<open>Consolidation\<close>

lemma consolidateStep_invalid: "\<not> validLine x \<Longrightarrow> consolidateStep entries x = entries"
  by (auto simp: validLine_def consolidateStep_def split: option.splits)

lemma consolidateStep_valid:
  assumes "validLine (Some ing)"
  shows "consolidateStep entries (Some ing) = validStep entries ing"
proof -
  from assms obtain t where t: "item ing = Some t" "t \<noteq> []"
    by (auto simp: validLine_def split: option.splits)
  show ?thesis
  proof (cases "map_of entries (groupKey t (unit ing))")
    case None
    with t show ?thesis
      by (simp add: consolidateStep_def validStep_def lineKey_def)
  next
    case (Some e)
    then have "AList.update (groupKey t (unit ing)) e entries = entries"
      by (simp add: update_triv)
    with Some t show ?thesis
      by (auto simp: consolidateStep_def validStep_def lineKey_def absorb_def
               split: option.splits)
  qed
qed

lemma validLines_Cons:
  "validLines (x # xs) = (case x of Some i \<Rightarrow> if validLine x then i # validLines xs else validLines xs
                          | None \<Rightarrow> validLines xs)"
  by (auto simp: validLines_def List.map_filter_simps validLine_def split: option.splits)

lemma foldl_consolidateStep:
  "foldl consolidateStep entries xs = foldl validStep entries (validLines xs)"
proof (induction xs arbitrary: entries)
  case Nil
  show ?case by (simp add: validLines_def List.map_filter_simps)
next
  case (Cons x xs)
  show ?case
  proof (cases "validLine x")
    case False
    then show ?thesis
      using Cons[of entries]
      by (auto simp: validLines_Cons consolidateStep_invalid split: option.splits)
  next
    case True
    then obtain i where "x = Some i" by (cases x) (auto simp: validLine_def)
    with True show ?thesis
      using Cons[of "validStep entries i"]
      by (simp add: validLines_Cons consolidateStep_valid)
  qed
qed

lemma absorb_None: "quantity e = None \<Longrightarrow> absorb e i = e"
  by (simp add: absorb_def)

lemma absorb_Some_None: "quantity i = None \<Longrightarrow> absorb e i = e"
  by (simp add: absorb_def split: option.splits)

lemma absorb_Some_Some:
  "quantity e = Some q \<Longrightarrow> quantity i = Some q' \<Longrightarrow>
   absorb e i = e\<lparr>quantity := Some (js_add q q'), consolidated := True\<rparr>"
  by (simp add: absorb_def)

lemma foldl_absorb:
  "foldl absorb e g =
     (case quantity e of
        None \<Rightarrow> e
      | Some q0 \<Rightarrow>
          if List.map_filter quantity g = [] then e
          else e\<lparr>quantity := Some (foldl js_add q0 (List.map_filter quantity g)),
                 consolidated := True\<rparr>)"
proof (induction g arbitrary: e)
  case Nil
  show ?case by (simp add: List.map_filter_simps split: option.splits)
next
  case (Cons i g)
  show ?case
  proof (cases "quantity e")
    case None
    then show ?thesis by (simp add: absorb_None Cons)
  next
    case (Some q)
    show ?thesis
    proof (cases "quantity i")
      case None
      with Some show ?thesis
        by (simp add: absorb_Some_None Cons List.map_filter_simps)
    next
      case (Some q')
      with \<open>quantity e = Some q\<close> show ?thesis
        by (simp add: absorb_Some_Some Cons List.map_filter_simps)
    qed
  qed
qed

lemma mergeGroup_absorb: "mergeGroup first rest = foldl absorb first rest"
  by (simp add: foldl_absorb mergeGroup_def)

lemma lineKey_mergeGroup: "lineKey (mergeGroup first rest) = lineKey first"
  by (simp add: mergeGroup_def lineKey_def split: option.splits)


lemma map_update_entry:
  "distinct (map fst es) \<Longrightarrow>
   map (\<lambda>(k', e'). (k', F k' e')) (AList.update k v es) =
   (if k \<in> fst ` set es
    then map (\<lambda>(k', e'). (k', if k' = k then F k v else F k' e')) es
    else map (\<lambda>(k', e'). (k', F k' e')) es @ [(k, F k v)])"
  by (induction es) (auto simp: image_iff)

lemma validLines_Nil: "validLines [] = []"
  by (simp add: validLines_def List.map_filter_simps)

lemma lineKey_foldl_absorb: "lineKey (foldl absorb e g) = lineKey e"
  using lineKey_mergeGroup[of e g] by (simp add: mergeGroup_absorb)

lemma foldl_validStep:
  assumes "distinct (map fst es)"
  shows "foldl validStep es vs =
     map (\<lambda>(k, e). (k, foldl absorb e (filter (\<lambda>i. lineKey i = k) vs))) es
     @ map (\<lambda>r. (lineKey r, r))
           (consolidateByGroups (filter (\<lambda>i. lineKey i \<notin> fst ` set es) vs))"
  using assms
proof (induction vs arbitrary: es)
  case Nil
  show ?case by (simp add: case_prod_unfold)
next
  case (Cons i vs)
  let ?k = "lineKey i"
  let ?G = "\<lambda>ws. (\<lambda>(k, e). (k, foldl absorb e (filter (\<lambda>j. lineKey j = k) ws)))"
  let ?KG = "\<lambda>ws. map (\<lambda>r. (lineKey r, r)) (consolidateByGroups ws)"
  show ?case
  proof (cases "map_of es ?k")
    case None
    then have notin: "?k \<notin> fst ` set es"
      by (simp add: map_of_eq_None_iff)
    let ?es' = "es @ [(?k, i)]"
    let ?rest = "filter (\<lambda>j. lineKey j \<notin> fst ` set es \<and> lineKey j \<noteq> ?k) vs"
    have d: "distinct (map fst ?es')" using Cons.prems notin by simp
    have step: "validStep es i = ?es'" using None by (simp add: validStep_def)
    have f1: "filter (\<lambda>j. lineKey j \<notin> fst ` set ?es') vs = ?rest"
      by (induction vs) auto
    have f2: "filter (\<lambda>j. lineKey j \<notin> fst ` set es \<and> lineKey j = ?k) vs
              = filter (\<lambda>j. lineKey j = ?k) vs"
      using notin by (induction vs) auto
    have m: "map (?G (i # vs)) es = map (?G vs) es"
      using notin by (auto simp: image_iff)
    have "foldl validStep es (i # vs) = foldl validStep ?es' vs"
      by (simp add: step)
    also have "\<dots> = map (?G vs) ?es' @ ?KG (filter (\<lambda>j. lineKey j \<notin> fst ` set ?es') vs)"
      by (rule Cons.IH[OF d])
    also have "\<dots> = map (?G vs) es
                      @ (?k, foldl absorb i (filter (\<lambda>j. lineKey j = ?k) vs)) # ?KG ?rest"
      unfolding f1 by simp
    also have "(?k, foldl absorb i (filter (\<lambda>j. lineKey j = ?k) vs)) # ?KG ?rest
               = ?KG (filter (\<lambda>j. lineKey j \<notin> fst ` set es) (i # vs))"
      using notin by (simp add: f2 mergeGroup_absorb lineKey_foldl_absorb)
    finally show ?thesis unfolding m .
  next
    case (Some e)
    then have isin: "?k \<in> fst ` set es"
      using map_of_SomeD[of es ?k e] by force
    let ?es' = "AList.update ?k (absorb e i) es"
    have d: "distinct (map fst ?es')" using Cons.prems by (simp add: distinct_update)
    have step: "validStep es i = ?es'" using Some by (simp add: validStep_def)
    have keys: "fst ` set ?es' = fst ` set es"
      using isin by (auto simp: dom_update)
    have m: "map (?G vs) ?es' = map (?G (i # vs)) es"
    proof -
      have "map (?G vs) ?es'
            = map (\<lambda>(k', e'). (k', if k' = ?k
                                    then foldl absorb (absorb e i) (filter (\<lambda>j. lineKey j = ?k) vs)
                                    else foldl absorb e' (filter (\<lambda>j. lineKey j = k') vs))) es"
        using isin Cons.prems
          map_update_entry[of es "\<lambda>k e'. foldl absorb e' (filter (\<lambda>j. lineKey j = k) vs)" ?k "absorb e i"]
        by simp
      also have "\<dots> = map (?G (i # vs)) es"
      proof (rule map_cong[OF refl])
        fix p assume p: "p \<in> set es"
        obtain k' e' where pe: "p = (k', e')" by (cases p)
        have "k' = ?k \<Longrightarrow> e' = e"
          using p pe Some Cons.prems by (auto dest: map_of_is_SomeI)
        then show "(case p of (k', e') \<Rightarrow> (k', if k' = ?k
                                    then foldl absorb (absorb e i) (filter (\<lambda>j. lineKey j = ?k) vs)
                                    else foldl absorb e' (filter (\<lambda>j. lineKey j = k') vs)))
                   = ?G (i # vs) p"
          using pe by auto
      qed
      finally show ?thesis .
    qed
    have "foldl validStep es (i # vs) = foldl validStep ?es' vs"
      by (simp add: step)
    also have "\<dots> = map (?G vs) ?es' @ ?KG (filter (\<lambda>j. lineKey j \<notin> fst ` set ?es') vs)"
      by (rule Cons.IH[OF d])
    also have "\<dots> = map (?G (i # vs)) es @ ?KG (filter (\<lambda>j. lineKey j \<notin> fst ` set es) vs)"
      unfolding m keys ..
    also have "filter (\<lambda>j. lineKey j \<notin> fst ` set es) vs
               = filter (\<lambda>j. lineKey j \<notin> fst ` set es) (i # vs)"
      using isin by simp
    finally show ?thesis .
  qed
qed

lemma consolidate_characterisation:
  "consolidateIngredients (IsArray xs) = consolidateByGroups (validLines xs)"
proof -
  have "foldl validStep [] (validLines xs)
        = map (\<lambda>r. (lineKey r, r)) (consolidateByGroups (validLines xs))"
    using foldl_validStep[of "[]" "validLines xs"] by simp
  then show ?thesis
    by (simp add: consolidateIngredients_def foldl_consolidateStep comp_def)
qed


lemma item_mergeGroup: "item (mergeGroup first rest) = item first"
  by (simp add: mergeGroup_def split: option.splits)

lemma unit_mergeGroup: "unit (mergeGroup first rest) = unit first"
  by (simp add: mergeGroup_def split: option.splits)

lemma consolidateByGroups_origin:
  "r \<in> set (consolidateByGroups vs) \<Longrightarrow> \<exists>i\<in>set vs. item r = item i \<and> unit r = unit i"
proof (induction vs arbitrary: r rule: consolidateByGroups.induct)
  case 1
  then show ?case by simp
next
  case (2 first rest)
  from "2.prems" consider
      "r = mergeGroup first (filter (\<lambda>i. lineKey i = lineKey first) rest)"
    | "r \<in> set (consolidateByGroups (filter (\<lambda>i. lineKey i \<noteq> lineKey first) rest))"
    by auto
  then show ?case
  proof cases
    case 1
    then show ?thesis by (simp add: item_mergeGroup unit_mergeGroup)
  next
    case 2
    from "2.IH"[OF this] show ?thesis by auto
  qed
qed

lemma consolidateByGroups_keys:
  "set (map lineKey (consolidateByGroups vs)) = set (map lineKey vs)
   \<and> distinct (map lineKey (consolidateByGroups vs))"
proof (induction vs rule: consolidateByGroups.induct)
  case 1
  show ?case by simp
next
  case (2 first rest)
  then show ?case by (auto simp: lineKey_mergeGroup)
qed

lemma set_validLines: "set (validLines xs) = {i. Some i \<in> set xs \<and> validLine (Some i)}"
  by (induction xs) (auto simp: validLines_Nil validLines_Cons split: option.splits)

lemma validLines_filter: "validLines (filter validLine xs) = validLines xs"
  by (induction xs) (auto simp: validLines_Nil validLines_Cons validLine_def split: option.splits)

lemma ran_unitMap:
  "ran unitMap = {''tablespoon'', ''teaspoon'', ''cup'', ''pint'', ''quart'', ''gallon'',
                  ''ounce'', ''pound'', ''inch''}"
  unfolding unitMap_def by (subst ran_distinct) auto

lemma canonical_plain: "canonicalUnit u \<Longrightarrow> plainUnit u"
  by (auto simp: canonicalUnit_def plainUnit_def ran_unitMap split: option.splits)

lemma key_last_field:
  "CHR ''-'' \<notin> set k \<Longrightarrow> takeWhile (\<lambda>x. x \<noteq> CHR ''-'') (rev (t @ ''-'' @ k)) = rev k"
  by (auto simp: takeWhile_tail)

lemma groupKey_plain:
  assumes "plainUnit (Some c)"
  shows "takeWhile (\<lambda>x. x \<noteq> CHR ''-'') (rev (groupKey t (Some c))) = rev c"
  using assms key_last_field[of c t]
  by (simp add: groupKey_def unitKey_def plainUnit_def)

lemma groupKey_no_unit:
  "takeWhile (\<lambda>x. x \<noteq> CHR ''-'') (rev (groupKey t None)) = rev ''unit''"
  using key_last_field[of "''unit''" "t @ ''-no''"]
  by (simp add: groupKey_def unitKey_def)

lemma groupKey_pair:
  assumes "plainUnit u" "plainUnit u'"
  shows "(groupKey t u = groupKey t' u') = (t = t' \<and> u = u')"
proof
  assume eq: "groupKey t u = groupKey t' u'"
  then have tw: "takeWhile (\<lambda>x. x \<noteq> CHR ''-'') (rev (groupKey t u))
                 = takeWhile (\<lambda>x. x \<noteq> CHR ''-'') (rev (groupKey t' u'))"
    by simp
  have u: "u = u'"
  proof (cases u)
    case None
    show ?thesis
    proof (cases u')
      case None
      with \<open>u = None\<close> show ?thesis by simp
    next
      case (Some c')
      with assms(2) have c': "plainUnit (Some c')" by simp
      from tw None Some have "rev ''unit'' = rev c'"
        by (simp only: groupKey_no_unit groupKey_plain[OF c'])
      then have "c' = ''unit''" by (simp only: rev_is_rev_conv)
      with c' show ?thesis by (simp add: plainUnit_def)
    qed
  next
    case (Some c)
    with assms(1) have c: "plainUnit (Some c)" by simp
    show ?thesis
    proof (cases u')
      case None
      from tw None Some have "rev c = rev ''unit''"
        by (simp only: groupKey_no_unit groupKey_plain[OF c])
      then have "c = ''unit''" by (simp only: rev_is_rev_conv)
      with c show ?thesis by (simp add: plainUnit_def)
    next
      case (Some c')
      with assms(2) have c': "plainUnit (Some c')" by simp
      from tw Some \<open>u = Some c\<close> have "rev c = rev c'"
        by (simp only: groupKey_plain[OF c] groupKey_plain[OF c'])
      with Some \<open>u = Some c\<close> show ?thesis by simp
    qed
  qed
  with eq have "t = t'" by (simp add: groupKey_def)
  with u show "t = t' \<and> u = u'" by simp
next
  assume "t = t' \<and> u = u'"
  then show "groupKey t u = groupKey t' u'" by simp
qed

text \<open>
  Claim C1, as stated: when any member of a group lacks a quantity, nothing is summed
  and the first member survives unchanged. Here the second of three salt lines has no
  quantity; the first and the third are summed all the same, and the record is marked.
\<close>

theorem consolidateIngredients_sums_past_gap:
  "consolidateIngredients
     (IsArray [Some (sampleLine ''salt'' (Some ''teaspoon'') (Some (Fin 1))),
               Some (sampleLine ''salt'' (Some ''teaspoon'') None),
               Some (sampleLine ''salt'' (Some ''teaspoon'') (Some (Fin 2)))])
   = [(sampleLine ''salt'' (Some ''teaspoon'') (Some (Fin 3)))\<lparr>consolidated := True\<rparr>]"
  by code_simp

text \<open>
  Claim C1, amended. \<open>consolidateIngredients\<close> groups the lines that count (objects with a
  non-empty item) by the key text made of the item, a hyphen and the unit, or
  \<open>no-unit\<close> when there is no unit. For plain units, and every canonical unit is plain,
  two keys are equal exactly when items and units are, so lines with different units
  are never merged. The output has one record per key, in the order in which the keys
  first appear. The record of a group is its first member, changed only as follows: when
  the first member has a quantity and at least one later member has one, its quantity
  is the first quantity plus the quantities of the later members that have one, in
  order, and it is marked consolidated; later members without a quantity are passed
  over. When the first member has no quantity, or no later member has one, the first
  member stands unchanged and the later members are dropped.
\<close>

theorem consolidateIngredients_by_groups:
  "consolidateIngredients (IsArray xs) = consolidateByGroups (validLines xs)
   \<and> distinct (map lineKey (consolidateIngredients (IsArray xs)))
   \<and> set (map lineKey (consolidateIngredients (IsArray xs))) = set (map lineKey (validLines xs))
   \<and> (plainUnit u \<and> plainUnit u' \<longrightarrow>
        (groupKey t u = groupKey t' u') = (t = t' \<and> u = u'))
   \<and> (canonicalUnit u \<longrightarrow> plainUnit u)"
  using consolidate_characterisation[of xs] consolidateByGroups_keys[of "validLines xs"]
    groupKey_pair[of u u' t t'] canonical_plain[of u]
  by simp

theorem consolidateIngredients_by_groups_witness:
  "canonicalUnit (Some ''cup'') \<and> plainUnit (Some ''cup'') \<and> plainUnit (Some ''ounce'')
   \<and> groupKey ''milk'' (Some ''cup'') \<noteq> groupKey ''milk'' (Some ''ounce'')
   \<and> consolidateIngredients
        (IsArray [Some (sampleLine ''milk'' (Some ''cup'') (Some (Fin 1))),
                  Some (sampleLine ''milk'' (Some ''ounce'') (Some (Fin 8)))])
      = consolidateByGroups
          [sampleLine ''milk'' (Some ''cup'') (Some (Fin 1)),
           sampleLine ''milk'' (Some ''ounce'') (Some (Fin 8))]"
proof -
  have c: "canonicalUnit (Some ''cup'') \<and> plainUnit (Some ''ounce'')"
    by (simp add: canonicalUnit_def plainUnit_def ran_unitMap)
  have v: "validLines [Some (sampleLine ''milk'' (Some ''cup'') (Some (Fin 1))),
                       Some (sampleLine ''milk'' (Some ''ounce'') (Some (Fin 8)))]
           = [sampleLine ''milk'' (Some ''cup'') (Some (Fin 1)),
              sampleLine ''milk'' (Some ''ounce'') (Some (Fin 8))]"
    by code_simp
  show ?thesis
    using c v consolidateIngredients_by_groups
      [of "[Some (sampleLine ''milk'' (Some ''cup'') (Some (Fin 1))),
            Some (sampleLine ''milk'' (Some ''ounce'') (Some (Fin 8)))]"
          "Some ''cup''" "Some ''ounce''" "''milk''" "''milk''"]
    by simp
qed

text \<open>
  Claim C10. \<open>consolidateIngredients\<close> returns the empty list for an argument that is not
  an array. For an array, the elements that are \<open>null\<close> or \<open>undefined\<close> and those whose
  item is missing or empty are skipped: the result is the one for the array without
  them, and every record of the output has the item and the unit of an element that
  counts.
\<close>

theorem consolidateIngredients_skips:
  "consolidateIngredients NotArray = []
   \<and> consolidateIngredients (IsArray xs) = consolidateIngredients (IsArray (filter validLine xs))
   \<and> (\<forall>r\<in>set (consolidateIngredients (IsArray xs)).
         \<exists>i. Some i \<in> set xs \<and> validLine (Some i) \<and> item r = item i \<and> unit r = unit i)"
proof (intro conjI ballI)
  show "consolidateIngredients NotArray = []"
    by (simp add: consolidateIngredients_def)
  show "consolidateIngredients (IsArray xs) = consolidateIngredients (IsArray (filter validLine xs))"
    by (simp add: consolidate_characterisation validLines_filter)
  fix r assume "r \<in> set (consolidateIngredients (IsArray xs))"
  then have "r \<in> set (consolidateByGroups (validLines xs))"
    by (simp add: consolidate_characterisation)
  from consolidateByGroups_origin[OF this]
  show "\<exists>i. Some i \<in> set xs \<and> validLine (Some i) \<and> item r = item i \<and> unit r = unit i"
    by (auto simp: set_validLines)
qed

theorem consolidateIngredients_skips_witness:
  "filter validLine [None, Some (sampleLine [] None (Some (Fin 1))),
                     Some (sampleLine ''flour'' (Some ''cup'') (Some (Fin 2)))]
     = [Some (sampleLine ''flour'' (Some ''cup'') (Some (Fin 2)))]
   \<and> consolidateIngredients
        (IsArray [None, Some (sampleLine [] None (Some (Fin 1))),
                  Some (sampleLine ''flour'' (Some ''cup'') (Some (Fin 2)))])
      = consolidateIngredients
          (IsArray [Some (sampleLine ''flour'' (Some ''cup'') (Some (Fin 2)))])"
proof -
  have f: "filter validLine [None, Some (sampleLine [] None (Some (Fin 1))),
                             Some (sampleLine ''flour'' (Some ''cup'') (Some (Fin 2)))]
           = [Some (sampleLine ''flour'' (Some ''cup'') (Some (Fin 2)))]"
    by code_simp
  show ?thesis
    using f consolidateIngredients_skips
      [of "[None, Some (sampleLine [] None (Some (Fin 1))),
            Some (sampleLine ''flour'' (Some ''cup'') (Some (Fin 2)))]"]
    by simp
qed

section \<open>The unit tokens tablespoon and teaspoon\<close>

text \<open>
  Claim C2 says that an input made of a quantity, a recognized unit token and an item
  is decomposed into the value of the quantity, the canonical unit and the item, as
  \<open>2 1/4 lbs ground beef\<close> is. The unit table has a key for the singular of every unit
  but two: \<open>tablespoon\<close> and \<open>teaspoon\<close> are values of the table and not keys of it.
  With \<open>tablespoons\<close> the line is decomposed; with \<open>tablespoon\<close> or \<open>teaspoon\<close> no
  unit is found and the token stays in the item.
\<close>

theorem parseIngredient_singular_units:
  "parseIngredient (VStr ''1 tablespoon sugar'') =
     Some \<lparr> quantity = Some (Fin 1), unit = None, item = Some ''tablespoon sugar'',
            originalText = Some ''1 tablespoon sugar'', category = Some ''pantry'',
            consolidated = False, scaled = False, originalQuantity = None \<rparr>
   \<and> parseIngredient (VStr ''2 teaspoon salt'') =
     Some \<lparr> quantity = Some (Fin 2), unit = None, item = Some ''teaspoon salt'',
            originalText = Some ''2 teaspoon salt'', category = Some ''spices'',
            consolidated = False, scaled = False, originalQuantity = None \<rparr>
   \<and> unitLookup ''tablespoon'' = None \<and> unitLookup ''teaspoon'' = None
   \<and> parseIngredient (VStr ''1 tablespoons sugar'') =
     Some \<lparr> quantity = Some (Fin 1), unit = Some ''tablespoon'', item = Some ''sugar'',
            originalText = Some ''1 tablespoons sugar'', category = Some ''pantry'',
            consolidated = False, scaled = False, originalQuantity = None \<rparr>
   \<and> parseIngredient (VStr ''1 cup sugar'') =
     Some \<lparr> quantity = Some (Fin 1), unit = Some ''cup'', item = Some ''sugar'',
            originalText = Some ''1 cup sugar'', category = Some ''pantry'',
            consolidated = False, scaled = False, originalQuantity = None \<rparr>
   \<and> parseIngredient (VStr ''2 1/4 lbs ground beef'') =
     Some \<lparr> quantity = Some (Fin (9 / 4)), unit = Some ''pound'', item = Some ''ground beef'',
            originalText = Some ''2 1/4 lbs ground beef'', category = Some ''meat'',
            consolidated = False, scaled = False, originalQuantity = None \<rparr>"
  by code_simp

end
